theory Spec2Isabelle
  imports Complex_Main
begin

section \<open>Time\<close>

text \<open>
  A Python naive \<open>datetime\<close> is modelled by the number of microseconds since
  0001-01-01T00:00:00, a \<open>timedelta\<close> by a number of microseconds. Comparison,
  \<open>dt + timedelta\<close> and \<open>dt - dt\<close> are then the operations of \<open>int\<close>. The limit of
  Python's type (years 1 to 9999, beyond which adding a timedelta raises OverflowError)
  is not modelled. Python floats are modelled by \<open>real\<close>: rounding is not modelled.
\<close>

type_synonym datetime = int
type_synonym timedelta = int

definition timedelta_hours :: "int \<Rightarrow> timedelta" where
  "timedelta_hours h = h * 3600000000"

definition dt_hour :: "datetime \<Rightarrow> int" where
  "dt_hour t = (t div 3600000000) mod 24"

definition dt_minute :: "datetime \<Rightarrow> int" where
  "dt_minute t = (t div 60000000) mod 60"

definition toordinal :: "datetime \<Rightarrow> int" where
  "toordinal t = t div 86400000000 + 1"

definition days_before_month :: "int \<Rightarrow> int" where
  "days_before_month m =
     [0, 0, 31, 59, 90, 120, 151, 181, 212, 243, 273, 304, 334] ! nat m"

definition days_in_month :: "int \<Rightarrow> int" where
  "days_in_month m = [0, 31, 28, 31, 30, 31, 30, 31, 31, 30, 31, 30, 31] ! nat m"

text \<open>
  The proleptic Gregorian date (year, month, day) of a day number, day 1 being
  0001-01-01, computed as the datetime module does (its \<open>_ord2ymd\<close>).
\<close>

definition ord2ymd :: "int \<Rightarrow> int \<times> int \<times> int" where
  "ord2ymd ordinal =
     (let n0 = ordinal - 1;
          n400 = n0 div 146097; r400 = n0 mod 146097;
          n100 = r400 div 36524; r100 = r400 mod 36524;
          n4 = r100 div 1461; r4 = r100 mod 1461;
          n1 = r4 div 365; n = r4 mod 365;
          year = n400 * 400 + 1 + n100 * 100 + n4 * 4 + n1
      in if n1 = 4 \<or> n100 = 4 then (year - 1, 12, 31)
         else
           let leapyear = (n1 = 3 \<and> (n4 \<noteq> 24 \<or> n100 = 3));
               month = (n + 50) div 32;
               preceding = days_before_month month + (if month > 2 \<and> leapyear then 1 else 0)
           in if preceding > n
              then (let month' = month - 1;
                        preceding' = preceding
                          - (days_in_month month' + (if month' = 2 \<and> leapyear then 1 else 0))
                    in (year, month', n - preceding' + 1))
              else (year, month, n - preceding + 1))"

definition dt_day :: "datetime \<Rightarrow> int" where
  "dt_day t = (case ord2ymd (toordinal t) of (y, m, d) \<Rightarrow> d)"

section \<open>tide_forecast_simple.py\<close>

subsection \<open>Data classes\<close>

record hindu_date =
  tithi :: string
  nakshatra :: string
  paksha :: string
  lunar_day :: int

text \<open>
  The \<open>weather_info\<close> dictionary of a prediction always has the four keys that
  \<open>predict_tides\<close> writes, each with a text value; an absent dictionary is \<open>None\<close>.
\<close>

record weather_info =
  condition :: string
  temperature :: string
  wind_speed :: string
  humidity :: string

record tide_prediction =
  timestamp :: datetime
  height_meters :: real
  tide_type :: string
  confidence :: real
  hindu_factors :: hindu_date
  weather_info :: "weather_info option"

subsection \<open>HinduCalendar\<close>

definition nakshatras :: "string list" where
  "nakshatras =
     [''Ashwini'', ''Bharani'', ''Krittika'', ''Rohini'', ''Mrigashira'', ''Ardra'',
      ''Punarvasu'', ''Pushya'', ''Ashlesha'', ''Magha'', ''Purva Phalguni'', ''Uttara Phalguni'',
      ''Hasta'', ''Chitra'', ''Swati'', ''Vishakha'', ''Anuradha'', ''Jyeshtha'',
      ''Mula'', ''Purva Ashadha'', ''Uttara Ashadha'', ''Shravana'', ''Dhanishta'', ''Shatabhisha'',
      ''Purva Bhadrapada'', ''Uttara Bhadrapada'', ''Revati'']"

definition tithis :: "string list" where
  "tithis =
     [''Pratipada'', ''Dwitiya'', ''Tritiya'', ''Chaturthi'', ''Panchami'', ''Shashthi'',
      ''Saptami'', ''Ashtami'', ''Navami'', ''Dashami'', ''Ekadashi'', ''Dwadashi'',
      ''Trayodashi'', ''Chaturdashi'', ''Purnima'', ''Pratipada'', ''Dwitiya'', ''Tritiya'',
      ''Chaturthi'', ''Panchami'', ''Shashthi'', ''Saptami'', ''Ashtami'', ''Navami'',
      ''Dashami'', ''Ekadashi'', ''Dwadashi'', ''Trayodashi'', ''Chaturdashi'', ''Amavasya'']"

definition get_current_hindu_date :: "datetime \<Rightarrow> hindu_date" where
  "get_current_hindu_date date =
     (let day_of_month = dt_day date;
          tithi_num = (day_of_month - 1) mod 30;
          nakshatra_num = (day_of_month - 1) mod 27
      in \<lparr>tithi = tithis ! nat tithi_num,
          nakshatra = nakshatras ! nat nakshatra_num,
          paksha = (if tithi_num < 15 then ''Shukla'' else ''Krishna''),
          lunar_day = tithi_num + 1\<rparr>)"

record nakshatra_tide_info =
  strength :: string
  direction :: string
  risk :: string

definition nt :: "string \<Rightarrow> string \<Rightarrow> string \<Rightarrow> nakshatra_tide_info" where
  "nt s d r = \<lparr>strength = s, direction = d, risk = r\<rparr>"

definition nakshatra_tides :: "(string \<times> nakshatra_tide_info) list" where
  "nakshatra_tides =
     [(''Ashwini'', nt ''strong'' ''rising'' ''high''),
      (''Bharani'', nt ''moderate'' ''rising'' ''medium''),
      (''Krittika'', nt ''strong'' ''high'' ''high''),
      (''Rohini'', nt ''moderate'' ''falling'' ''medium''),
      (''Mrigashira'', nt ''weak'' ''low'' ''low''),
      (''Ardra'', nt ''strong'' ''rising'' ''high''),
      (''Punarvasu'', nt ''moderate'' ''high'' ''medium''),
      (''Pushya'', nt ''strong'' ''falling'' ''high''),
      (''Ashlesha'', nt ''weak'' ''low'' ''low''),
      (''Magha'', nt ''strong'' ''rising'' ''high''),
      (''Purva Phalguni'', nt ''moderate'' ''high'' ''medium''),
      (''Uttara Phalguni'', nt ''strong'' ''falling'' ''high''),
      (''Hasta'', nt ''weak'' ''low'' ''low''),
      (''Chitra'', nt ''strong'' ''rising'' ''high''),
      (''Swati'', nt ''moderate'' ''high'' ''medium''),
      (''Vishakha'', nt ''strong'' ''falling'' ''high''),
      (''Anuradha'', nt ''weak'' ''low'' ''low''),
      (''Jyeshtha'', nt ''strong'' ''rising'' ''high''),
      (''Mula'', nt ''moderate'' ''high'' ''medium''),
      (''Purva Ashadha'', nt ''strong'' ''falling'' ''high''),
      (''Uttara Ashadha'', nt ''weak'' ''low'' ''low''),
      (''Shravana'', nt ''strong'' ''rising'' ''high''),
      (''Dhanishta'', nt ''moderate'' ''high'' ''medium''),
      (''Shatabhisha'', nt ''strong'' ''falling'' ''high''),
      (''Purva Bhadrapada'', nt ''weak'' ''low'' ''low''),
      (''Uttara Bhadrapada'', nt ''strong'' ''rising'' ''high''),
      (''Revati'', nt ''moderate'' ''high'' ''medium'')]"

definition tithi_amplification_table :: "(string \<times> real) list" where
  "tithi_amplification_table =
     [(''Purnima'', 1.5), (''Amavasya'', 1.4), (''Ekadashi'', 1.2),
      (''Ashtami'', 1.1), (''Chaturdashi'', 1.3)]"

text \<open>Python's \<open>d.get(k, default)\<close> on a dictionary written as an association list.\<close>

definition dict_get :: "('k \<times> 'v) list \<Rightarrow> 'k \<Rightarrow> 'v \<Rightarrow> 'v" where
  "dict_get d k dflt = (case map_of d k of Some v \<Rightarrow> v | None \<Rightarrow> dflt)"

definition get_recommendation :: "nakshatra_tide_info \<Rightarrow> string \<Rightarrow> string" where
  "get_recommendation tide_info tithi_name =
     (if risk tide_info = ''high'' then ''High tide alert - monitor coastal areas closely''
      else if risk tide_info = ''medium'' then ''Moderate tides - normal coastal monitoring''
      else ''Low tides - reduced coastal risk'')"

record tide_influence =
  nakshatra_tide :: nakshatra_tide_info
  tithi_amplification :: real
  overall_strength :: string
  influence_direction :: string
  risk_level :: string
  recommendation :: string

definition get_tide_influence :: "hindu_date \<Rightarrow> tide_influence" where
  "get_tide_influence hindu_date =
     (let base_tide = dict_get nakshatra_tides (nakshatra hindu_date)
                        (nt ''moderate'' ''stable'' ''medium'');
          amplification = dict_get tithi_amplification_table (tithi hindu_date) 1.0
      in \<lparr>nakshatra_tide = base_tide,
          tithi_amplification = amplification,
          overall_strength = strength base_tide,
          influence_direction = direction base_tide,
          risk_level = risk base_tide,
          recommendation = get_recommendation base_tide (tithi hindu_date)\<rparr>)"

subsection \<open>TideCalculator\<close>

record tide_calculator =
  base_height :: real
  tide_range :: real

text \<open>\<open>TideCalculator()\<close>: the constructor's defaults.\<close>

definition default_tide_calculator :: tide_calculator where
  "default_tide_calculator = \<lparr>base_height = 1.5, tide_range = 2.0\<rparr>"

definition hour_factor :: "datetime \<Rightarrow> real" where
  "hour_factor time = real_of_int (dt_hour time) + real_of_int (dt_minute time) / 60"

text \<open>The local \<open>astronomical_tide\<close> of \<open>calculate_tide_height\<close>.\<close>

definition astronomical_tide :: "tide_calculator \<Rightarrow> datetime \<Rightarrow> real" where
  "astronomical_tide calc time =
     base_height calc + 0.5 * sin (2 * pi * hour_factor time / 12.42)"

definition strength_multiplier :: "(string \<times> real) list" where
  "strength_multiplier = [(''strong'', 1.3), (''moderate'', 1.1), (''weak'', 0.9)]"

definition calculate_tide_height :: "tide_calculator \<Rightarrow> datetime \<Rightarrow> tide_influence \<Rightarrow> real" where
  "calculate_tide_height calc time hindu_influence =
     (let multiplier = dict_get strength_multiplier (strength (nakshatra_tide hindu_influence)) 1.0;
          amplification = tithi_amplification hindu_influence;
          final_height = astronomical_tide calc time * multiplier * amplification;
          random_factor = 0.1 * sin (real_of_int (dt_hour time) * 0.5)
      in max 0.1 (min 5.0 (final_height + random_factor)))"

definition determine_tide_type :: "tide_calculator \<Rightarrow> real \<Rightarrow> datetime \<Rightarrow> string" where
  "determine_tide_type calc height time =
     (if height > base_height calc + 0.5 then ''high''
      else if height < base_height calc - 0.5 then ''low''
      else if dt_hour time mod 6 < 3 then ''rising''
      else ''falling'')"

subsection \<open>TidePredictor\<close>

text \<open>
  \<open>WeatherSimulator.get_weather\<close> draws from Python's random module and
  \<open>predict_tides\<close> renders the sample as text. The rendered sample of the n-th call of
  the simulator is supplied from outside, as a function of n; \<open>predict_tides\<close> is given
  the number of calls made so far and makes one call per step.
\<close>

definition predict_step :: "(nat \<Rightarrow> weather_info) \<Rightarrow> nat \<Rightarrow> datetime \<Rightarrow> nat \<Rightarrow> tide_prediction" where
  "predict_step weather_feed calls start_date i =
     (let current_time = start_date + timedelta_hours (int i);
          hindu_date = get_current_hindu_date current_time;
          tide_influence = get_tide_influence hindu_date;
          tide_height = calculate_tide_height default_tide_calculator current_time tide_influence;
          tide_type = determine_tide_type default_tide_calculator tide_height current_time
      in \<lparr>timestamp = current_time,
          height_meters = tide_height,
          tide_type = tide_type,
          confidence = 0.85,
          hindu_factors = hindu_date,
          weather_info = Some (weather_feed (calls + i))\<rparr>)"

definition predict_tides :: "(nat \<Rightarrow> weather_info) \<Rightarrow> nat \<Rightarrow> datetime \<Rightarrow> int \<Rightarrow> tide_prediction list" where
  "predict_tides weather_feed calls start_date days =
     map (predict_step weather_feed calls start_date) [0 ..< nat (days * 24)]"

subsection \<open>Text to number\<close>

text \<open>
  \<open>s.split()\<close> cuts a text at runs of white space and drops empty pieces; characters
  are bytes here, so the white space is the ASCII one.
\<close>

definition is_space :: "char \<Rightarrow> bool" where
  "is_space c = (let n = (of_char c :: nat) in n = 32 \<or> (9 \<le> n \<and> n \<le> 13) \<or> (28 \<le> n \<and> n \<le> 31))"

fun split_ws :: "string \<Rightarrow> string \<Rightarrow> string list" where
  "split_ws cur [] = (if cur = [] then [] else [cur])"
| "split_ws cur (c # cs) =
     (if is_space c then (if cur = [] then split_ws [] cs else cur # split_ws [] cs)
      else split_ws (cur @ [c]) cs)"

definition py_split :: "string \<Rightarrow> string list" where
  "py_split s = split_ws [] s"

definition is_digit :: "char \<Rightarrow> bool" where
  "is_digit c = (let n = (of_char c :: nat) in 48 \<le> n \<and> n \<le> 57)"

definition digits_value :: "string \<Rightarrow> nat" where
  "digits_value ds = foldl (\<lambda>acc c. 10 * acc + (of_char c - 48)) 0 ds"

text \<open>
  What \<open>float(s)\<close> returns: a number, which is a real here as every float of the model,
  or one of the three values that are no number.
\<close>

datatype float_value = Finite real | PosInf | NegInf | NaN

text \<open>\<open>v > c\<close> for a float \<open>v\<close> and a finite \<open>c\<close>: a comparison with nan is false.\<close>

fun float_gt :: "float_value \<Rightarrow> real \<Rightarrow> bool" where
  "float_gt (Finite x) c = (x > c)"
| "float_gt PosInf c = True"
| "float_gt NegInf c = False"
| "float_gt NaN c = False"

fun float_neg :: "float_value \<Rightarrow> float_value" where
  "float_neg (Finite x) = Finite (- x)"
| "float_neg PosInf = NegInf"
| "float_neg NegInf = PosInf"
| "float_neg NaN = NaN"

text \<open>
  The longest run of digits at the front of a text, single underscores between two digits
  allowed, with the underscores dropped, and the rest of the text. The run is empty when
  the text does not start with a digit.
\<close>

fun digitpart :: "string \<Rightarrow> string \<times> string" where
  "digitpart [] = ([], [])"
| "digitpart [c] = (if is_digit c then ([c], []) else ([], [c]))"
| "digitpart (c # d # cs) =
     (if is_digit c
      then (if d = CHR ''_'' \<and> cs \<noteq> [] \<and> is_digit (hd cs)
            then (case digitpart cs of (ds, r) \<Rightarrow> (c # ds, r))
            else (case digitpart (d # cs) of (ds, r) \<Rightarrow> (c # ds, r)))
      else ([], c # d # cs))"

text \<open>
  The number before the exponent, with the text that follows it: digits, then optionally
  a point and digits, with a digit on one side of the point at least.
\<close>

definition mantissa :: "string \<Rightarrow> (real \<times> string) option" where
  "mantissa s =
     (case digitpart s of
        (ip, r1) \<Rightarrow>
          (case r1 of
             [] \<Rightarrow> (if ip = [] then None else Some (real (digits_value ip), []))
           | c # r2 \<Rightarrow>
               if c = CHR ''.''
               then (case digitpart r2 of
                       (fp, r3) \<Rightarrow>
                         if ip = [] \<and> fp = [] then None
                         else Some (real (digits_value ip)
                                    + real (digits_value fp) / 10 ^ length fp, r3))
               else if ip = [] then None
               else Some (real (digits_value ip), r1)))"

text \<open>
  The factor of the exponent that ends the text: 1 when nothing follows the number, and
  a power of ten after \<open>e\<close> or \<open>E\<close>, an optional sign and digits. \<open>None\<close> when
  the text goes on in any other way.
\<close>

definition exponent_factor :: "string \<Rightarrow> real option" where
  "exponent_factor r =
     (case r of
        [] \<Rightarrow> Some 1
      | c # r1 \<Rightarrow>
          if c = CHR ''e'' \<or> c = CHR ''E''
          then (let negative = (r1 \<noteq> [] \<and> hd r1 = CHR ''-'');
                    r2 = (if r1 \<noteq> [] \<and> (hd r1 = CHR ''-'' \<or> hd r1 = CHR ''+'') then tl r1 else r1)
                in case digitpart r2 of
                     (ed, r3) \<Rightarrow>
                       if ed = [] \<or> r3 \<noteq> [] then None
                       else if negative then Some (1 / 10 ^ digits_value ed)
                       else Some (10 ^ digits_value ed))
          else None)"

definition to_lower :: "char \<Rightarrow> char" where
  "to_lower c = (let n = (of_char c :: nat) in if 65 \<le> n \<and> n \<le> 90 then char_of (n + 32) else c)"

text \<open>
  \<open>float(s)\<close> on a text without white space: an optional sign, then a number with an
  optional exponent, or \<open>inf\<close>, \<open>infinity\<close> or \<open>nan\<close> in any case of letters.
  \<open>None\<close> is ValueError. Characters are bytes, so the digits are the ASCII ones; the
  rounding of the number to a float, and its overflow to \<open>inf\<close>, are not modelled.
\<close>

definition unsigned_float :: "string \<Rightarrow> float_value option" where
  "unsigned_float s =
     (if map to_lower s = ''inf'' \<or> map to_lower s = ''infinity'' then Some PosInf
      else if map to_lower s = ''nan'' then Some NaN
      else case mantissa s of
             None \<Rightarrow> None
           | Some (m, r) \<Rightarrow>
               (case exponent_factor r of
                  None \<Rightarrow> None
                | Some k \<Rightarrow> Some (Finite (m * k))))"

definition py_float :: "string \<Rightarrow> float_value option" where
  "py_float s =
     (case s of
        [] \<Rightarrow> None
      | c # cs \<Rightarrow>
          (if c = CHR ''-'' then map_option float_neg (unsigned_float cs)
           else if c = CHR ''+'' then unsigned_float cs
           else unsigned_float s))"

text \<open>
  \<open>float(text.split()[0])\<close>: \<open>None\<close> when the text has no piece (IndexError) or
  the first piece is not a number (ValueError).
\<close>

definition first_number :: "string \<Rightarrow> float_value option" where
  "first_number s = (case py_split s of [] \<Rightarrow> None | w # _ \<Rightarrow> py_float w)"

subsection \<open>The score of one prediction in \<open>get_hazard_assessment\<close>\<close>

definition high_risk_nakshatras :: "string list" where
  "high_risk_nakshatras =
     [''Ashwini'', ''Krittika'', ''Ardra'', ''Pushya'', ''Magha'', ''Chitra'', ''Vishakha'',
      ''Jyeshtha'', ''Purva Ashadha'', ''Shravana'', ''Shatabhisha'', ''Purva Bhadrapada'']"

text \<open>
  The body of the loop of \<open>get_hazard_assessment\<close> up to the categorisation. The wind
  speed is read outside any \<open>try\<close>: \<open>None\<close> is the exception that leaves the method.
\<close>

definition hazard_risk_score :: "tide_prediction \<Rightarrow> int option" where
  "hazard_risk_score pred =
     (let tide_part = (if tide_type pred = ''high'' \<and> height_meters pred > 3.0 then 3
                       else if tide_type pred = ''high'' then 2 else 0);
          weather_part =
            (case weather_info pred of
               None \<Rightarrow> Some 0
             | Some w \<Rightarrow>
                 (let cond_part = (if condition w = ''stormy'' then 3
                                   else if condition w = ''rainy'' then 1 else 0)
                  in case first_number (wind_speed w) of
                       None \<Rightarrow> None
                     | Some v \<Rightarrow> Some (cond_part + (if float_gt v 10 then 2 else 0))));
          calendar_part = (if nakshatra (hindu_factors pred) \<in> set high_risk_nakshatras then 1 else 0)
      in case weather_part of
           None \<Rightarrow> None
         | Some wp \<Rightarrow> Some (tide_part + wp + calendar_part))"

section \<open>tide_monitoring_service.py\<close>

subsection \<open>Data and state\<close>

record tide_alert =
  alert_id :: string
  alert_timestamp :: datetime
  alert_type :: string
  severity :: string
  location :: "real \<times> real"
  tide_height :: real
  predicted_impact :: string
  recommendations :: "string list"
  expires_at :: datetime
  is_active :: bool

text \<open>The \<open>tide_data\<close> dictionary of \<open>generate_tide_alert\<close>, read with \<open>get\<close>.\<close>

record tide_data =
  td_height :: "real option"
  td_impact :: "string option"
  td_recommendations :: "string list option"

text \<open>
  The state of a \<open>TideMonitoringService\<close>. \<open>datetime.now()\<close> and the weather simulator
  are the outside world: \<open>clock env n\<close> is what the n-th reading of the clock returns,
  \<open>weather_feed env n\<close> the rendered sample of the n-th call of the simulator, and the
  state counts the readings and calls made so far. The thresholds are set once in
  \<open>__init__\<close> and are constants here.
\<close>

record env =
  clock :: "nat \<Rightarrow> datetime"
  weather_feed :: "nat \<Rightarrow> weather_info"

record service =
  latitude :: real
  longitude :: real
  location_name :: string
  active_alerts :: "tide_alert list"
  tide_history :: "tide_prediction list"
  clock_reads :: nat
  weather_calls :: nat

definition high_tide_threshold :: real where
  "high_tide_threshold = 3.0"

definition low_tide_threshold :: real where
  "low_tide_threshold = 0.5"

definition storm_surge_threshold :: real where
  "storm_surge_threshold = 4.0"

definition now :: "env \<Rightarrow> service \<Rightarrow> datetime \<times> service" where
  "now e s = (clock e (clock_reads s), s\<lparr>clock_reads := Suc (clock_reads s)\<rparr>)"

subsection \<open>Predictions of the service\<close>

text \<open>
  \<open>_update_tide_predictions\<close>. Its \<open>except\<close> branch is not reached in the model,
  where \<open>predict_tides\<close> raises nothing.
\<close>

definition update_tide_predictions :: "env \<Rightarrow> service \<Rightarrow> service" where
  "update_tide_predictions e s =
     (let (start_date, s1) = now e s;
          preds = predict_tides (weather_feed e) (weather_calls s1) start_date 7
      in s1\<lparr>tide_history := preds, weather_calls := weather_calls s1 + length preds\<rparr>)"

definition ensure_history :: "env \<Rightarrow> service \<Rightarrow> service" where
  "ensure_history e s = (if tide_history s = [] then update_tide_predictions e s else s)"

text \<open>
  \<open>min(xs, key=...)\<close> over a list with head \<open>x\<close>: the first element of the least key.
  The key is the distance in time, in microseconds (the source compares the same
  distance in seconds, as a float).
\<close>

definition closest_to :: "datetime \<Rightarrow> tide_prediction \<Rightarrow> tide_prediction list \<Rightarrow> tide_prediction" where
  "closest_to time x xs =
     foldl (\<lambda>best p. if \<bar>timestamp p - time\<bar> < \<bar>timestamp best - time\<bar> then p else best) x xs"

definition get_current_tide_prediction ::
    "env \<Rightarrow> service \<Rightarrow> datetime \<Rightarrow> tide_prediction option \<times> service" where
  "get_current_tide_prediction e s time =
     (let s1 = ensure_history e s
      in case tide_history s1 of
           [] \<Rightarrow> (None, s1)
         | x # xs \<Rightarrow>
             (let closest = closest_to time x xs
              in if \<bar>timestamp closest - time\<bar> < 3600 * 1000000 then (Some closest, s1)
                 else (None, s1)))"

definition get_forecast_range ::
    "env \<Rightarrow> service \<Rightarrow> datetime \<Rightarrow> int \<Rightarrow> tide_prediction list \<times> service" where
  "get_forecast_range e s start_time hours =
     (let s1 = ensure_history e s;
          end_time = start_time + timedelta_hours hours
      in (filter (\<lambda>p. start_time \<le> timestamp p \<and> timestamp p \<le> end_time) (tide_history s1), s1))"

definition get_tide_trend :: "tide_prediction list \<Rightarrow> string" where
  "get_tide_trend predictions =
     (if length predictions < 2 then ''stable''
      else
        let heights = map height_meters predictions
        in if length heights \<ge> 3
           then (let recent = drop (length heights - 3) heights
                 in if recent ! 0 < recent ! 1 \<and> recent ! 1 < recent ! 2 then ''rising''
                    else if recent ! 0 > recent ! 1 \<and> recent ! 1 > recent ! 2 then ''falling''
                    else ''stable'')
           else ''stable'')"

record next_change =
  nc_type :: string
  nc_timestamp :: datetime
  nc_height :: real
  nc_time_until :: real

definition get_next_tide_change ::
    "env \<Rightarrow> service \<Rightarrow> tide_prediction list \<Rightarrow> next_change option \<times> service" where
  "get_next_tide_change e s predictions =
     (if length predictions < 2 then (None, s)
      else
        case find (\<lambda>p. tide_type p \<noteq> tide_type (hd predictions)) (tl predictions) of
          None \<Rightarrow> (None, s)
        | Some pred \<Rightarrow>
            (let (t, s1) = now e s
             in (Some \<lparr>nc_type = tide_type pred,
                       nc_timestamp = timestamp pred,
                       nc_height = height_meters pred,
                       nc_time_until = real_of_int (timestamp pred - t) / 1000000 / 3600\<rparr>, s1)))"

subsection \<open>Risk assessment\<close>

record risk_assessment =
  level :: string
  score :: int
  factors :: "string set"
  risk_recommendations :: "string list"

text \<open>\<open>risk_score += n; risk_factors.append(f)\<close> on the pair of the two locals.\<close>

definition add_risk :: "int \<Rightarrow> string \<Rightarrow> int \<times> string list \<Rightarrow> int \<times> string list" where
  "add_risk n f acc = (fst acc + n, snd acc @ [f])"

definition get_risk_recommendations :: "string \<Rightarrow> string list \<Rightarrow> string list" where
  "get_risk_recommendations lvl fs =
     (if lvl = ''CRITICAL'' then
        [''Immediate evacuation of low-lying coastal areas'',
         ''Activate emergency response protocols'',
         ''Issue public safety announcements'',
         ''Monitor tide gauges continuously'']
      else if lvl = ''HIGH'' then
        [''Prepare for potential flooding'',
         ''Secure loose objects and boats'',
         ''Monitor weather updates'',
         ''Have emergency supplies ready'']
      else if lvl = ''MEDIUM'' then
        [''Exercise caution near water'',
         ''Monitor tide conditions'',
         ''Stay informed of weather changes'']
      else if lvl = ''LOW'' then
        [''Normal coastal activities'',
         ''Regular monitoring recommended'']
      else [])
     @ (if ''High tide conditions'' \<in> set fs
        then [''Avoid low-lying coastal areas during high tide''] else [])
     @ (if ''Stormy weather'' \<in> set fs
        then [''Stay indoors and away from windows''] else [])
     @ (if ''High winds'' \<in> set fs
        then [''Secure outdoor objects and avoid coastal areas''] else [])"

definition tide_height_risk :: "tide_prediction \<Rightarrow> int \<times> string list \<Rightarrow> int \<times> string list" where
  "tide_height_risk current acc =
     (if height_meters current > storm_surge_threshold then add_risk 5 ''Storm surge conditions'' acc
      else if height_meters current > high_tide_threshold then add_risk 3 ''High tide conditions'' acc
      else acc)"

definition weather_risk :: "tide_prediction \<Rightarrow> int \<times> string list \<Rightarrow> int \<times> string list" where
  "weather_risk current acc =
     (case weather_info current of
        None \<Rightarrow> acc
      | Some w \<Rightarrow>
          (let acc1 = (if condition w = ''stormy'' then add_risk 4 ''Stormy weather'' acc
                       else if condition w = ''rainy'' then add_risk 2 ''Rainy conditions'' acc
                       else acc)
           in case first_number (wind_speed w) of
                None \<Rightarrow> acc1
              | Some v \<Rightarrow>
                  (if float_gt v 15 then add_risk 3 ''High winds'' acc1
                   else if float_gt v 10 then add_risk 2 ''Moderate winds'' acc1
                   else acc1)))"

definition forecast_risk :: "tide_prediction list \<Rightarrow> int \<times> string list \<Rightarrow> int \<times> string list" where
  "forecast_risk forecast acc =
     foldl (\<lambda>a pred. if height_meters pred > high_tide_threshold
                      then add_risk 1 ''High tide forecast'' a else a)
       acc (take 6 forecast)"

definition risk_level_of :: "int \<Rightarrow> string" where
  "risk_level_of risk_score =
     (if risk_score \<ge> 8 then ''CRITICAL''
      else if risk_score \<ge> 6 then ''HIGH''
      else if risk_score \<ge> 4 then ''MEDIUM''
      else if risk_score \<ge> 2 then ''LOW''
      else ''MINIMAL'')"

text \<open>
  \<open>_assess_current_risk\<close>. The three definitions above are the blocks of its body, in
  the order of the source, and \<open>risk_level_of\<close> is its chain of comparisons.
\<close>

definition assess_current_risk :: "tide_prediction option \<Rightarrow> tide_prediction list \<Rightarrow> risk_assessment" where
  "assess_current_risk current forecast =
     (let acc0 = (0, []);
          acc1 = (case current of
                    None \<Rightarrow> acc0
                  | Some c \<Rightarrow> weather_risk c (tide_height_risk c acc0));
          acc2 = forecast_risk forecast acc1;
          risk_score = fst acc2;
          risk_factors = snd acc2;
          lvl = risk_level_of risk_score
      in \<lparr>level = lvl,
          score = risk_score,
          factors = set risk_factors,
          risk_recommendations = get_risk_recommendations lvl risk_factors\<rparr>)"

subsection \<open>Status\<close>

text \<open>
  The dictionary that \<open>get_current_tide_status\<close> returns; \<open>st_timestamp\<close> is the
  instant whose ISO text the source stores.
\<close>

record tide_status =
  st_timestamp :: datetime
  st_location :: "string \<times> real \<times> real"
  st_height_meters :: "real option"
  st_type :: "string option"
  st_trend :: string
  st_next_change :: "next_change option"
  st_risk_assessment :: risk_assessment
  st_active_alerts :: nat
  st_weather :: "weather_info option"
  st_hindu_calendar :: "hindu_date option"

definition get_current_tide_status :: "env \<Rightarrow> service \<Rightarrow> tide_status \<times> service" where
  "get_current_tide_status e s =
     (let (t, s1) = now e s;
          (current_prediction, s2) = get_current_tide_prediction e s1 t;
          (next_6_hours, s3) = get_forecast_range e s2 t 6;
          current_risk = assess_current_risk current_prediction next_6_hours;
          trend = get_tide_trend next_6_hours;
          (change, s4) = get_next_tide_change e s3 next_6_hours
      in (\<lparr>st_timestamp = t,
           st_location = (location_name s4, latitude s4, longitude s4),
           st_height_meters = map_option height_meters current_prediction,
           st_type = map_option tide_type current_prediction,
           st_trend = trend,
           st_next_change = change,
           st_risk_assessment = current_risk,
           st_active_alerts = length (filter is_active (active_alerts s4)),
           st_weather = (case current_prediction of None \<Rightarrow> None | Some c \<Rightarrow> weather_info c),
           st_hindu_calendar = map_option hindu_factors current_prediction\<rparr>, s4))"

subsection \<open>Alerts\<close>

definition digit_char :: "int \<Rightarrow> char" where
  "digit_char d = char_of (48 + d)"

definition two_digits :: "int \<Rightarrow> string" where
  "two_digits n = [digit_char (n div 10 mod 10), digit_char (n mod 10)]"

text \<open>\<open>strftime('%Y%m%d_%H%M%S')\<close>, for the years of four digits.\<close>

definition strftime_id :: "datetime \<Rightarrow> string" where
  "strftime_id t =
     (case ord2ymd (toordinal t) of
        (y, m, d) \<Rightarrow>
          two_digits (y div 100) @ two_digits (y mod 100) @ two_digits m @ two_digits d
          @ ''_'' @ two_digits (dt_hour t) @ two_digits (dt_minute t)
          @ two_digits ((t div 1000000) mod 60))"

definition expires_in :: "string \<Rightarrow> timedelta" where
  "expires_in sev =
     (if sev = ''CRITICAL'' then timedelta_hours 2
      else if sev = ''HIGH'' then timedelta_hours 4
      else if sev = ''MEDIUM'' then timedelta_hours 6
      else timedelta_hours 12)"

text \<open>
  \<open>generate_tide_alert\<close> reads the clock three times: for the identifier, for
  \<open>timestamp\<close> and for \<open>expires_at\<close>, in this order.
\<close>

definition generate_tide_alert ::
    "env \<Rightarrow> service \<Rightarrow> string \<Rightarrow> string \<Rightarrow> tide_data \<Rightarrow> tide_alert \<times> service" where
  "generate_tide_alert e s a_type sev data =
     (let (t_id, s1) = now e s;
          (t_stamp, s2) = now e s1;
          (t_expiry, s3) = now e s2;
          alert = \<lparr>alert_id = ''tide_'' @ a_type @ ''_'' @ strftime_id t_id,
                   alert_timestamp = t_stamp,
                   alert_type = a_type,
                   severity = sev,
                   location = (latitude s, longitude s),
                   tide_height = (case td_height data of None \<Rightarrow> 0 | Some h \<Rightarrow> h),
                   predicted_impact = (case td_impact data of None \<Rightarrow> ''Unknown'' | Some i \<Rightarrow> i),
                   recommendations = (case td_recommendations data of None \<Rightarrow> [] | Some r \<Rightarrow> r),
                   expires_at = t_expiry + expires_in sev,
                   is_active = True\<rparr>
      in (alert, s3\<lparr>active_alerts := active_alerts s3 @ [alert]\<rparr>))"

text \<open>\<open>_cleanup_expired_alerts\<close>: the sweep at a given instant, then with the clock.\<close>

definition expire_alert :: "datetime \<Rightarrow> tide_alert \<Rightarrow> tide_alert" where
  "expire_alert t a = (if expires_at a < t then a\<lparr>is_active := False\<rparr> else a)"

definition sweep :: "datetime \<Rightarrow> tide_alert list \<Rightarrow> tide_alert list" where
  "sweep t alerts =
     (let cutoff_time = t - timedelta_hours 24
      in filter (\<lambda>a. is_active a \<or> alert_timestamp a > cutoff_time) (map (expire_alert t) alerts))"

definition cleanup_expired_alerts :: "env \<Rightarrow> service \<Rightarrow> service" where
  "cleanup_expired_alerts e s =
     (let (t, s1) = now e s in s1\<lparr>active_alerts := sweep t (active_alerts s1)\<rparr>)"

text \<open>
  The two blocks of \<open>check_and_generate_alerts\<close> that create alerts: the one on the
  tide height and the one on the risk level. Each returns what it appends to
  \<open>new_alerts\<close>.
\<close>

definition tide_height_alerts :: "env \<Rightarrow> service \<Rightarrow> tide_status \<Rightarrow> tide_alert list \<times> service" where
  "tide_height_alerts e s status =
     (case st_height_meters status of
        None \<Rightarrow> ([], s)
      | Some height \<Rightarrow>
          if height = 0 then ([], s)
          else if height > storm_surge_threshold then
            (let (alert, s1) = generate_tide_alert e s ''STORM_SURGE'' ''CRITICAL''
                   \<lparr>td_height = Some height,
                    td_impact = Some ''Severe coastal flooding expected'',
                    td_recommendations = Some [''Immediate evacuation'', ''Emergency response activation'']\<rparr>
             in ([alert], s1))
          else if height > high_tide_threshold then
            (let (alert, s1) = generate_tide_alert e s ''HIGH_TIDE'' ''HIGH''
                   \<lparr>td_height = Some height,
                    td_impact = Some ''Coastal flooding possible'',
                    td_recommendations = Some [''Avoid low-lying areas'', ''Monitor conditions'']\<rparr>
             in ([alert], s1))
          else ([], s))"

definition risk_level_alerts :: "env \<Rightarrow> service \<Rightarrow> tide_status \<Rightarrow> tide_alert list \<times> service" where
  "risk_level_alerts e s status =
     (let lvl = level (st_risk_assessment status)
      in if lvl = ''HIGH'' \<or> lvl = ''CRITICAL'' then
           (let existing_risk_alerts =
                  filter (\<lambda>a. alert_type a = ''COASTAL_RISK'' \<and> is_active a) (active_alerts s)
            in if existing_risk_alerts = [] then
                 (let (alert, s1) = generate_tide_alert e s ''COASTAL_RISK'' lvl
                        \<lparr>td_height = Some (case st_height_meters status of None \<Rightarrow> 0 | Some h \<Rightarrow> h),
                         td_impact = Some (''Coastal risk level: '' @ lvl),
                         td_recommendations = Some (risk_recommendations (st_risk_assessment status))\<rparr>
                  in ([alert], s1))
               else ([], s))
         else ([], s))"

text \<open>
  \<open>check_and_generate_alerts\<close>. The alerts it returns are the objects that it put in
  \<open>active_alerts\<close>, so the final sweep's change of \<open>is_active\<close> shows in them.
\<close>

definition check_and_generate_alerts :: "env \<Rightarrow> service \<Rightarrow> tide_alert list \<times> service" where
  "check_and_generate_alerts e s =
     (let (current_status, s1) = get_current_tide_status e s;
          (tide_new, s2) = tide_height_alerts e s1 current_status;
          (risk_new, s3) = risk_level_alerts e s2 current_status;
          s4 = cleanup_expired_alerts e s3
      in (map (expire_alert (clock e (clock_reads s3))) (tide_new @ risk_new), s4))"

subsection \<open>Forecast of the service\<close>

fun str_nat :: "nat \<Rightarrow> string" where
  "str_nat n = (if n < 10 then [digit_char (int n)]
                else str_nat (n div 10) @ [digit_char (int (n mod 10))])"

definition str_int :: "int \<Rightarrow> string" where
  "str_int i = (if i < 0 then CHR ''-'' # str_nat (nat (- i)) else str_nat (nat i))"

text \<open>
  \<open>get_tide_forecast\<close> of the service. Of the dictionary it returns the model keeps
  the location, the period, the instant of generation and the high and low tides (as
  the predictions they are copied from); the daily, calendar and weather summaries,
  which are computed from \<open>tide_history\<close> alone, are left out.
\<close>

record forecast =
  fc_location :: "string \<times> real \<times> real"
  forecast_period :: string
  generated_at :: datetime
  high_low_tides :: "tide_prediction list"

datatype forecast_result = ForecastError string | Forecast forecast

definition get_high_low_tide_times :: "service \<Rightarrow> tide_prediction list" where
  "get_high_low_tide_times s =
     take 20 (filter (\<lambda>p. tide_type p = ''high'' \<or> tide_type p = ''low'') (tide_history s))"

definition get_tide_forecast :: "env \<Rightarrow> service \<Rightarrow> int \<Rightarrow> forecast_result \<times> service" where
  "get_tide_forecast e s days =
     (let s1 = ensure_history e s
      in if tide_history s1 = [] then (ForecastError ''Failed to generate tide predictions'', s1)
         else
           let tides = get_high_low_tide_times s1;
               (t, s2) = now e s1
           in (Forecast \<lparr>fc_location = (location_name s2, latitude s2, longitude s2),
                         forecast_period = str_int days @ '' days'',
                         generated_at = t,
                         high_low_tides = tides\<rparr>, s2))"

section \<open>tide_api.py\<close>

text \<open>
  A handler takes the global \<open>tide_service\<close> (\<open>None\<close> when it was not initialised) and
  the query parameters, and returns the HTTP status with the body. The \<open>days\<close>
  parameter is read with \<open>type=int\<close>: it is \<open>None\<close> when the parameter is absent or is
  not an integer, and the default 7 is taken then. The handlers' \<open>except\<close> branch
  (status 500) is not reached in the model, where nothing below raises.
\<close>

datatype 'a response = Response (status_code: nat) (payload: 'a)

definition api_get_tide_forecast ::
    "env \<Rightarrow> service option \<Rightarrow> int option \<Rightarrow> forecast_result response \<times> service option" where
  "api_get_tide_forecast e svc days_arg =
     (case svc of
        None \<Rightarrow> (Response 503 (ForecastError ''Service not available''), None)
      | Some s \<Rightarrow>
          (let days0 = (case days_arg of None \<Rightarrow> 7 | Some d \<Rightarrow> d);
               days = min (max days0 1) 14;
               (fc, s1) = get_tide_forecast e s days
           in (Response 200 fc, Some s1)))"

record alerts_body =
  alerts :: "tide_alert list"
  total_count :: nat
  body_timestamp :: datetime

datatype alerts_result = AlertsError string | Alerts alerts_body

text \<open>\<open>if value:\<close> on an optional text: absent and empty both skip the filter.\<close>

definition filter_by :: "(tide_alert \<Rightarrow> string) \<Rightarrow> string option \<Rightarrow> tide_alert list \<Rightarrow> tide_alert list" where
  "filter_by field arg xs =
     (case arg of
        None \<Rightarrow> xs
      | Some v \<Rightarrow> if v = [] then xs else filter (\<lambda>a. field a = v) xs)"

definition api_get_alerts ::
    "env \<Rightarrow> service option \<Rightarrow> string option \<Rightarrow> string option
       \<Rightarrow> alerts_result response \<times> service option" where
  "api_get_alerts e svc type_arg severity_arg =
     (case svc of
        None \<Rightarrow> (Response 503 (AlertsError ''Service not available''), None)
      | Some s \<Rightarrow>
          (let selected = filter_by severity severity_arg (filter_by alert_type type_arg (active_alerts s));
               serialized_alerts = filter is_active selected;
               (t, s1) = now e s
           in (Response 200 (Alerts \<lparr>alerts = serialized_alerts,
                                      total_count = length serialized_alerts,
                                      body_timestamp = t\<rparr>), Some s1)))"

text \<open>A response that refuses the request: an error status or an error body.\<close>

definition forecast_rejected :: "forecast_result response \<Rightarrow> bool" where
  "forecast_rejected r =
     (status_code r \<noteq> 200 \<or> (case payload r of ForecastError _ \<Rightarrow> True | Forecast _ \<Rightarrow> False))"

definition alerts_rejected :: "alerts_result response \<Rightarrow> bool" where
  "alerts_rejected r =
     (status_code r \<noteq> 200 \<or> (case payload r of AlertsError _ \<Rightarrow> True | Alerts _ \<Rightarrow> False))"

section \<open>Sequences of checks and the states they reach\<close>

primrec run_checks :: "env \<Rightarrow> nat \<Rightarrow> service \<Rightarrow> service" where
  "run_checks e 0 s = s"
| "run_checks e (Suc n) s = run_checks e n (snd (check_and_generate_alerts e s))"

definition active_coastal_risk :: "tide_alert list \<Rightarrow> tide_alert list" where
  "active_coastal_risk xs = filter (\<lambda>a. alert_type a = ''COASTAL_RISK'' \<and> is_active a) xs"

section \<open>Sample inputs\<close>

text \<open>2024-01-01T00:00:00, day 738886 of the calendar.\<close>

definition t0 :: datetime where
  "t0 = 63839664000000000"

definition calm_weather :: weather_info where
  "calm_weather =
     \<lparr>condition = ''clear'', temperature = ''21.5'', wind_speed = ''4.0 m/s'', humidity = ''55%''\<rparr>"

definition stormy_weather :: weather_info where
  "stormy_weather =
     \<lparr>condition = ''stormy'', temperature = ''17.0'', wind_speed = ''18.0 m/s'', humidity = ''80%''\<rparr>"

text \<open>A clock that advances by one microsecond at each reading, and one that stands still.\<close>

definition ticking_env :: env where
  "ticking_env = \<lparr>clock = (\<lambda>n. t0 + int n), weather_feed = (\<lambda>n. calm_weather)\<rparr>"

definition frozen_env :: env where
  "frozen_env = \<lparr>clock = (\<lambda>n. t0), weather_feed = (\<lambda>n. calm_weather)\<rparr>"

definition prediction_at :: "datetime \<Rightarrow> real \<Rightarrow> weather_info \<Rightarrow> tide_prediction" where
  "prediction_at t h w =
     \<lparr>timestamp = t, height_meters = h, tide_type = ''high'', confidence = 0.85,
      hindu_factors = \<lparr>tithi = ''Pratipada'', nakshatra = ''Ashwini'', paksha = ''Shukla'',
                       lunar_day = 1\<rparr>,
      weather_info = Some w\<rparr>"

definition service_with :: "tide_prediction list \<Rightarrow> tide_alert list \<Rightarrow> service" where
  "service_with history existing =
     \<lparr>latitude = 37.7749, longitude = -122.4194,
      location_name = ''Lat: 37.7749, Lon: -122.4194'',
      active_alerts = existing, tide_history = history, clock_reads = 0, weather_calls = 0\<rparr>"

definition sample_alert :: "string \<Rightarrow> string \<Rightarrow> datetime \<Rightarrow> datetime \<Rightarrow> tide_alert" where
  "sample_alert a_type sev created expiry =
     \<lparr>alert_id = ''tide_'' @ a_type @ ''_'' @ strftime_id created,
      alert_timestamp = created, alert_type = a_type, severity = sev,
      location = (37.7749, -122.4194), tide_height = 3.2,
      predicted_impact = ''Coastal flooding possible'', recommendations = [],
      expires_at = expiry, is_active = True\<rparr>"

text \<open>An alert that expired an hour before \<open>t0\<close> and was not swept yet, and one that is current.\<close>

definition stale_alert :: tide_alert where
  "stale_alert = sample_alert ''COASTAL_RISK'' ''CRITICAL'' (t0 - timedelta_hours 3) (t0 - timedelta_hours 1)"

definition current_high_tide_alert :: tide_alert where
  "current_high_tide_alert = sample_alert ''HIGH_TIDE'' ''HIGH'' (t0 - timedelta_hours 1) (t0 + timedelta_hours 3)"

definition surge_data :: tide_data where
  "surge_data =
     \<lparr>td_height = Some 4.2, td_impact = Some ''Severe coastal flooding expected'',
      td_recommendations = Some [''Immediate evacuation'', ''Emergency response activation'']\<rparr>"

text \<open>The HIGH_TIDE alert that a check at \<open>t0\<close>, with the clock standing still, creates for 3.2 m.\<close>

definition new_high_tide_alert :: tide_alert where
  "new_high_tide_alert =
     (sample_alert ''HIGH_TIDE'' ''HIGH'' t0 (t0 + timedelta_hours 4))
       \<lparr>recommendations := [''Avoid low-lying areas'', ''Monitor conditions'']\<rparr>"

section \<open>Facts about the operations\<close>

lemma now_simps [simp]:
  "fst (now e s) = clock e (clock_reads s)"
  "active_alerts (snd (now e s)) = active_alerts s"
  "tide_history (snd (now e s)) = tide_history s"
  "clock_reads (snd (now e s)) = Suc (clock_reads s)"
  "latitude (snd (now e s)) = latitude s"
  "longitude (snd (now e s)) = longitude s"
  by (simp_all add: now_def)

lemma ensure_history_alerts [simp]: "active_alerts (ensure_history e s) = active_alerts s"
  by (simp add: ensure_history_def update_tide_predictions_def now_def Let_def)

lemma get_current_tide_prediction_alerts [simp]:
  "active_alerts (snd (get_current_tide_prediction e s t)) = active_alerts s"
  by (simp add: get_current_tide_prediction_def Let_def split: list.splits)

lemma get_forecast_range_alerts [simp]:
  "active_alerts (snd (get_forecast_range e s t h)) = active_alerts s"
  by (simp add: get_forecast_range_def Let_def)

lemma get_next_tide_change_alerts [simp]:
  "active_alerts (snd (get_next_tide_change e s ps)) = active_alerts s"
  by (simp add: get_next_tide_change_def Let_def now_def split: option.splits)

lemma status_alerts: "active_alerts (snd (get_current_tide_status e s)) = active_alerts s"
  by (simp add: get_current_tide_status_def Let_def split_beta)

lemma status_count:
  "st_active_alerts (fst (get_current_tide_status e s)) = length (filter is_active (active_alerts s))"
  by (simp add: get_current_tide_status_def Let_def split_beta)

lemma status_timestamp: "st_timestamp (fst (get_current_tide_status e s)) = clock e (clock_reads s)"
  by (simp add: get_current_tide_status_def Let_def split_beta)

lemma status_height:
  "st_height_meters (fst (get_current_tide_status e s)) =
     map_option height_meters
       (fst (get_current_tide_prediction e (snd (now e s)) (clock e (clock_reads s))))"
  by (simp add: get_current_tide_status_def Let_def split_beta)

lemma current_prediction_single:
  "tide_history s = [p] \<Longrightarrow>
     fst (get_current_tide_prediction e s t) =
       (if \<bar>timestamp p - t\<bar> < 3600000000 then Some p else None)"
  by (simp add: get_current_tide_prediction_def ensure_history_def closest_to_def Let_def)

lemma status_height_single:
  assumes "tide_history s = [p]" "\<bar>timestamp p - clock e (clock_reads s)\<bar> < 3600000000"
  shows "st_height_meters (fst (get_current_tide_status e s)) = Some (height_meters p)"
  using assms by (simp add: status_height current_prediction_single)

lemma generate_tide_alert_props:
  assumes "generate_tide_alert e s ty sev d = (a, s')"
  shows "active_alerts s' = active_alerts s @ [a]" "alert_type a = ty" "severity a = sev" "is_active a"
     "alert_timestamp a = clock e (Suc (clock_reads s))"
     "expires_at a = clock e (Suc (Suc (clock_reads s))) + expires_in sev"
     "tide_height a = (case td_height d of None \<Rightarrow> 0 | Some h \<Rightarrow> h)"
     "clock_reads s' = clock_reads s + 3"
  using assms by (auto simp: generate_tide_alert_def Let_def now_def)

lemma generate_tide_alert_appends:
  "generate_tide_alert e s ty sev d = (a, s') \<Longrightarrow>
     active_alerts s' = active_alerts s @ [a] \<and> alert_type a = ty \<and> severity a = sev \<and> is_active a"
  by (auto simp: generate_tide_alert_def Let_def now_def)

lemma tide_height_alerts_surge:
  assumes "st_height_meters st = Some h" "h > storm_surge_threshold"
  shows "\<exists>a s'. tide_height_alerts e s st = ([a], s') \<and> active_alerts s' = active_alerts s @ [a]
            \<and> alert_type a = ''STORM_SURGE'' \<and> severity a = ''CRITICAL'' \<and> tide_height a = h \<and> is_active a"
proof -
  obtain a s' where g: "generate_tide_alert e s ''STORM_SURGE'' ''CRITICAL''
        \<lparr>td_height = Some h, td_impact = Some ''Severe coastal flooding expected'',
         td_recommendations = Some [''Immediate evacuation'', ''Emergency response activation'']\<rparr> = (a, s')"
    by fastforce
  have "h \<noteq> 0" using assms(2) by (simp add: storm_surge_threshold_def)
  then have "tide_height_alerts e s st = ([a], s')"
    using assms g by (simp add: tide_height_alerts_def)
  then show ?thesis using generate_tide_alert_props[OF g] by simp
qed

lemma tide_height_alerts_high:
  assumes "st_height_meters st = Some h" "h > high_tide_threshold" "\<not> h > storm_surge_threshold"
  shows "\<exists>a s'. tide_height_alerts e s st = ([a], s') \<and> active_alerts s' = active_alerts s @ [a]
            \<and> alert_type a = ''HIGH_TIDE'' \<and> severity a = ''HIGH'' \<and> tide_height a = h \<and> is_active a"
proof -
  obtain a s' where g: "generate_tide_alert e s ''HIGH_TIDE'' ''HIGH''
        \<lparr>td_height = Some h, td_impact = Some ''Coastal flooding possible'',
         td_recommendations = Some [''Avoid low-lying areas'', ''Monitor conditions'']\<rparr> = (a, s')"
    by fastforce
  have "h \<noteq> 0" using assms(2) by (simp add: high_tide_threshold_def)
  then have "tide_height_alerts e s st = ([a], s')"
    using assms g by (simp add: tide_height_alerts_def)
  then show ?thesis using generate_tide_alert_props[OF g] by simp
qed

lemma tide_height_alerts_props:
  assumes "tide_height_alerts e s st = (new, s')"
  shows "active_alerts s' = active_alerts s @ new" "length new \<le> 1"
        "\<forall>a \<in> set new. alert_type a \<noteq> ''COASTAL_RISK''"
  using assms
  by (auto simp: tide_height_alerts_def Let_def split: option.splits if_splits prod.splits
           dest!: generate_tide_alert_appends)

lemma risk_level_alerts_props:
  assumes "risk_level_alerts e s st = (new, s')"
  shows "active_alerts s' = active_alerts s @ new" "length new \<le> 1"
        "\<forall>a \<in> set new. alert_type a = ''COASTAL_RISK'' \<and> is_active a"
        "active_coastal_risk (active_alerts s) \<noteq> [] \<Longrightarrow> new = []"
  using assms
  by (auto simp: risk_level_alerts_def Let_def active_coastal_risk_def
           split: option.splits if_splits prod.splits dest!: generate_tide_alert_appends)

lemma check_shape:
  assumes "get_current_tide_status e s = (st, s1)"
      and "tide_height_alerts e s1 st = (tide_new, s2)"
      and "risk_level_alerts e s2 st = (risk_new, s3)"
  shows "fst (check_and_generate_alerts e s) =
           map (expire_alert (clock e (clock_reads s3))) (tide_new @ risk_new)"
    and "active_alerts (snd (check_and_generate_alerts e s)) =
           sweep (clock e (clock_reads s3)) (active_alerts s @ tide_new @ risk_new)"
    and "clock_reads (snd (check_and_generate_alerts e s)) = Suc (clock_reads s3)"
proof -
  have a1: "active_alerts s1 = active_alerts s" using assms(1) status_alerts[of e s] by simp
  have a3: "active_alerts s3 = active_alerts s @ tide_new @ risk_new"
    using tide_height_alerts_props(1)[OF assms(2)] risk_level_alerts_props(1)[OF assms(3)] a1 by simp
  show "fst (check_and_generate_alerts e s) =
          map (expire_alert (clock e (clock_reads s3))) (tide_new @ risk_new)"
    by (simp add: check_and_generate_alerts_def assms)
  show "active_alerts (snd (check_and_generate_alerts e s)) =
           sweep (clock e (clock_reads s3)) (active_alerts s @ tide_new @ risk_new)"
    by (simp add: check_and_generate_alerts_def assms cleanup_expired_alerts_def now_def a3)
  show "clock_reads (snd (check_and_generate_alerts e s)) = Suc (clock_reads s3)"
    by (simp add: check_and_generate_alerts_def assms cleanup_expired_alerts_def now_def)
qed

lemma expire_alert_fields [simp]:
  "alert_type (expire_alert t a) = alert_type a"
  "severity (expire_alert t a) = severity a"
  "tide_height (expire_alert t a) = tide_height a"
  "expires_at (expire_alert t a) = expires_at a"
  "alert_timestamp (expire_alert t a) = alert_timestamp a"
  by (simp_all add: expire_alert_def)

lemma sweep_expired_inactive: "a \<in> set (sweep t xs) \<Longrightarrow> expires_at a < t \<Longrightarrow> \<not> is_active a"
  by (auto simp: sweep_def Let_def expire_alert_def split: if_splits)

lemma sweep_idem: "sweep t (sweep t xs) = sweep t xs"
  by (induction xs) (auto simp: sweep_def Let_def expire_alert_def)

lemma sweep_no_flip: "map (expire_alert t) (sweep t xs) = sweep t xs"
  by (induction xs) (auto simp: sweep_def Let_def expire_alert_def)

lemma active_coastal_risk_sweep:
  "length (active_coastal_risk (sweep t xs)) \<le> length (active_coastal_risk xs)"
  by (induction xs) (auto simp: sweep_def active_coastal_risk_def Let_def expire_alert_def)

lemma active_coastal_risk_append_other:
  "\<forall>a \<in> set new. alert_type a \<noteq> ''COASTAL_RISK'' \<Longrightarrow>
     active_coastal_risk (xs @ new) = active_coastal_risk xs"
  by (auto simp: active_coastal_risk_def)

lemma check_step:
  assumes "length (active_coastal_risk (active_alerts s)) \<le> 1"
  shows "length (active_coastal_risk (active_alerts (snd (check_and_generate_alerts e s)))) \<le> 1"
proof -
  obtain st s1 where 1: "get_current_tide_status e s = (st, s1)" by fastforce
  obtain n1 s2 where 2: "tide_height_alerts e s1 st = (n1, s2)" by fastforce
  obtain n2 s3 where 3: "risk_level_alerts e s2 st = (n2, s3)" by fastforce
  have a1: "active_alerts s1 = active_alerts s" using 1 status_alerts[of e s] by simp
  have a2: "active_alerts s2 = active_alerts s @ n1"
    using tide_height_alerts_props(1)[OF 2] a1 by simp
  have c2: "active_coastal_risk (active_alerts s2) = active_coastal_risk (active_alerts s)"
    using a2 active_coastal_risk_append_other[OF tide_height_alerts_props(3)[OF 2]] by simp
  have "length (active_coastal_risk (active_alerts s @ n1 @ n2)) \<le> 1"
  proof (cases "active_coastal_risk (active_alerts s) = []")
    case True
    have "active_coastal_risk (active_alerts s @ n1 @ n2) = active_coastal_risk n2"
      using True c2 a2 by (simp add: active_coastal_risk_def)
    moreover have "length (active_coastal_risk n2) \<le> length n2"
      by (simp add: active_coastal_risk_def)
    ultimately show ?thesis using risk_level_alerts_props(2)[OF 3] by simp
  next
    case False
    then have "n2 = []" using risk_level_alerts_props(4)[OF 3] c2 by simp
    then show ?thesis using c2 a2 assms by simp
  qed
  then show ?thesis
    using check_shape(2)[OF 1 2 3]
      active_coastal_risk_sweep[of "clock e (clock_reads s3)" "active_alerts s @ n1 @ n2"]
    by simp
qed

lemma first_number_18: "first_number ''18.0 m/s'' = Some (Finite 18)"
  by (simp add: first_number_def py_split_def is_space_def py_float_def unsigned_float_def
      mantissa_def exponent_factor_def to_lower_def is_digit_def digits_value_def)

text \<open>
  For comparison, the score of \<open>get_hazard_assessment\<close> for the stormy sample: 3 for
  the high tide above 3.0 m, 3 for the storm, 2 for the wind and 1 for the mansion.
\<close>

lemma hazard_risk_score_sample:
  "hazard_risk_score (prediction_at t0 3.5 stormy_weather) = Some 9"
  by (simp add: hazard_risk_score_def prediction_at_def stormy_weather_def first_number_18
      high_risk_nakshatras_def)

lemma foldl_skip:
  "\<forall>p \<in> set xs. \<not> P p \<Longrightarrow> foldl (\<lambda>a p. if P p then f a else a) acc xs = acc"
  by (induction xs arbitrary: acc) auto

lemma forecast_risk_none:
  "\<forall>p \<in> set (take 6 forecast). \<not> height_meters p > high_tide_threshold \<Longrightarrow>
     forecast_risk forecast acc = acc"
  unfolding forecast_risk_def by (rule foldl_skip)

lemma assess_from_acc:
  assumes "forecast_risk forecast (weather_risk c (tide_height_risk c (0, []))) = (n, fs)"
  shows "score (assess_current_risk (Some c) forecast) = n"
    and "level (assess_current_risk (Some c) forecast) = risk_level_of n"
    and "factors (assess_current_risk (Some c) forecast) = set fs"
  using assms by (simp_all add: assess_current_risk_def Let_def)

lemma hour_factor_3h: "hour_factor 10800000000 = 3"
  by (simp add: hour_factor_def dt_hour_def dt_minute_def)

lemma sin_pos_3h: "sin (2 * pi * 3 / 12.42) > 0"
proof -
  have "0 < 2 * pi * 3 / 12.42" by simp
  moreover have "2 * pi * 3 / 12.42 < pi" using pi_gt_zero by (simp add: field_simps)
  ultimately show ?thesis by (rule sin_gt_zero)
qed

lemma calculate_tide_height_bounds:
  "0.1 \<le> calculate_tide_height c t i \<and> calculate_tide_height c t i \<le> 5.0"
  by (simp add: calculate_tide_height_def Let_def)

lemma hindu_t0:
  "get_current_hindu_date t0 =
     \<lparr>tithi = ''Pratipada'', nakshatra = ''Ashwini'', paksha = ''Shukla'', lunar_day = 1\<rparr>"
  by (simp add: get_current_hindu_date_def dt_day_def ord2ymd_def toordinal_def t0_def Let_def
     days_before_month_def days_in_month_def tithis_def nakshatras_def)

lemma hour_t0: "dt_hour t0 = 0" "dt_minute t0 = 0"
  by (simp_all add: t0_def dt_hour_def dt_minute_def)

lemma influence_t0:
  "get_tide_influence (get_current_hindu_date t0) =
     \<lparr>nakshatra_tide = nt ''strong'' ''rising'' ''high'', tithi_amplification = 1.0,
      overall_strength = ''strong'', influence_direction = ''rising'', risk_level = ''high'',
      recommendation = ''High tide alert - monitor coastal areas closely''\<rparr>"
  by (simp add: hindu_t0 get_tide_influence_def dict_get_def nakshatra_tides_def
       tithi_amplification_table_def nt_def get_recommendation_def)

lemma height_t0:
  "calculate_tide_height default_tide_calculator t0
     (get_tide_influence (get_current_hindu_date t0)) = 1.95"
  by (simp add: influence_t0 calculate_tide_height_def astronomical_tide_def hour_factor_def
       hour_t0 dict_get_def strength_multiplier_def default_tide_calculator_def nt_def)

lemma first_step_t0: "predict_tides feed 0 t0 1 ! 0 = predict_step feed 0 t0 0"
  by (simp add: predict_tides_def)

lemma sweep_keeps_all:
  "filter (\<lambda>a. is_active a \<or> alert_timestamp a > t - timedelta_hours 24) (sweep t xs) = sweep t xs"
  by (simp add: sweep_def Let_def)

lemma sweep_sample:
  "sweep t0 [stale_alert, current_high_tide_alert] = [stale_alert\<lparr>is_active := False\<rparr>, current_high_tide_alert]"
  by (simp add: sweep_def expire_alert_def stale_alert_def current_high_tide_alert_def sample_alert_def
       timedelta_hours_def t0_def)

lemma filter_type_expire:
  "filter (\<lambda>b. P (alert_type b)) (map (expire_alert t) xs) = map (expire_alert t) (filter (\<lambda>b. P (alert_type b)) xs)"
  by (induction xs) auto


lemma check_clock:
  assumes "get_current_tide_status e s = (st, s1)"
      and "tide_height_alerts e s1 st = (tide_new, s2)"
      and "risk_level_alerts e s2 st = (risk_new, s3)"
  shows "clock_reads (snd (check_and_generate_alerts e s)) - 1 = clock_reads s3"
  using check_shape(3)[OF assms] by simp

lemma expired_blocks_new_risk_alert:
  assumes "active_coastal_risk (active_alerts s) \<noteq> []"
  shows "filter (\<lambda>a. alert_type a = ''COASTAL_RISK'') (fst (check_and_generate_alerts e s)) = []"
proof -
  obtain st s1 where 1: "get_current_tide_status e s = (st, s1)" by fastforce
  obtain n1 s2 where 2: "tide_height_alerts e s1 st = (n1, s2)" by fastforce
  obtain n2 s3 where 3: "risk_level_alerts e s2 st = (n2, s3)" by fastforce
  have a1: "active_alerts s1 = active_alerts s" using 1 status_alerts[of e s] by simp
  have a2: "active_alerts s2 = active_alerts s @ n1"
    using tide_height_alerts_props(1)[OF 2] a1 by simp
  have "active_coastal_risk (active_alerts s2) = active_coastal_risk (active_alerts s)"
    using a2 active_coastal_risk_append_other[OF tide_height_alerts_props(3)[OF 2]] by simp
  then have n2: "n2 = []" using risk_level_alerts_props(4)[OF 3] assms by simp
  have "filter (\<lambda>a. alert_type a = ''COASTAL_RISK'') n1 = []"
    using tide_height_alerts_props(3)[OF 2] by (simp add: filter_empty_conv)
  then show ?thesis
    unfolding check_shape(1)[OF 1 2 3] n2 filter_type_expire[of "\<lambda>ty. ty = ''COASTAL_RISK''"]
    by simp
qed

lemma surge_status_height:
  "st_height_meters (fst (get_current_tide_status frozen_env
      (service_with [prediction_at t0 4.2 stormy_weather] existing))) = Some 4.2"
  using status_height_single[of "service_with [prediction_at t0 4.2 stormy_weather] existing"
          "prediction_at t0 4.2 stormy_weather" frozen_env]
  by (simp add: service_with_def prediction_at_def frozen_env_def)

lemma high_status_height:
  "st_height_meters (fst (get_current_tide_status frozen_env
      (service_with [prediction_at t0 3.2 calm_weather] existing))) = Some 3.2"
  using status_height_single[of "service_with [prediction_at t0 3.2 calm_weather] existing"
          "prediction_at t0 3.2 calm_weather" frozen_env]
  by (simp add: service_with_def prediction_at_def frozen_env_def)

lemma stale_facts:
  "expires_at stale_alert < t0" "is_active stale_alert" "alert_type stale_alert = ''COASTAL_RISK''"
  "alert_timestamp stale_alert > t0 - timedelta_hours 24"
  by (simp_all add: stale_alert_def sample_alert_def timedelta_hours_def)

lemma status_risk:
  "st_risk_assessment (fst (get_current_tide_status e s)) =
     assess_current_risk
       (fst (get_current_tide_prediction e (snd (now e s)) (clock e (clock_reads s))))
       (fst (get_forecast_range e
          (snd (get_current_tide_prediction e (snd (now e s)) (clock e (clock_reads s))))
          (clock e (clock_reads s)) 6))"
  by (simp add: get_current_tide_status_def Let_def split_beta)

lemma current_prediction_history:
  "tide_history s \<noteq> [] \<Longrightarrow> tide_history (snd (get_current_tide_prediction e s t)) = tide_history s"
  by (simp add: get_current_tide_prediction_def ensure_history_def Let_def split: list.splits)

lemma forecast_range_single:
  "tide_history s = [p] \<Longrightarrow>
     fst (get_forecast_range e s t h) =
       (if t \<le> timestamp p \<and> timestamp p \<le> t + timedelta_hours h then [p] else [])"
  by (simp add: get_forecast_range_def ensure_history_def Let_def)

lemma status_risk_single:
  assumes "tide_history s = [p]" "timestamp p = clock e (clock_reads s)"
  shows "st_risk_assessment (fst (get_current_tide_status e s)) = assess_current_risk (Some p) [p]"
proof -
  have h: "tide_history (snd (now e s)) = [p]" using assms(1) by simp
  have c: "fst (get_current_tide_prediction e (snd (now e s)) (clock e (clock_reads s))) = Some p"
    using current_prediction_single[OF h] assms(2) by simp
  have h2: "tide_history (snd (get_current_tide_prediction e (snd (now e s)) (clock e (clock_reads s)))) = [p]"
    using current_prediction_history[of "snd (now e s)"] h by simp
  have f: "fst (get_forecast_range e
          (snd (get_current_tide_prediction e (snd (now e s)) (clock e (clock_reads s))))
          (clock e (clock_reads s)) 6) = [p]"
    using forecast_range_single[OF h2] assms(2) by (simp add: timedelta_hours_def)
  show ?thesis unfolding status_risk c f ..
qed

lemma surge_level:
  "level (assess_current_risk (Some (prediction_at t0 4.2 stormy_weather))
            [prediction_at t0 4.2 stormy_weather]) = ''CRITICAL''"
proof -
  have a: "forecast_risk [prediction_at t0 4.2 stormy_weather]
             (weather_risk (prediction_at t0 4.2 stormy_weather)
               (tide_height_risk (prediction_at t0 4.2 stormy_weather) (0, []))) =
          (13, [''Storm surge conditions'', ''Stormy weather'', ''High winds'', ''High tide forecast''])"
    by (simp add: prediction_at_def stormy_weather_def forecast_risk_def
      weather_risk_def tide_height_risk_def add_risk_def first_number_18
      storm_surge_threshold_def high_tide_threshold_def)
  show ?thesis unfolding assess_from_acc(2)[OF a] by (simp add: risk_level_of_def)
qed

lemma forecast_with_history:
  assumes "tide_history s \<noteq> []"
  shows "get_tide_forecast e s days =
     (Forecast \<lparr>fc_location = (location_name s, latitude s, longitude s),
               forecast_period = str_int days @ '' days'',
               generated_at = clock e (clock_reads s),
               high_low_tides = get_high_low_tide_times s\<rparr>,
      s\<lparr>clock_reads := Suc (clock_reads s)\<rparr>)"
  using assms
  by (simp add: get_tide_forecast_def ensure_history_def now_def Let_def get_high_low_tide_times_def)

lemma filter_by_unknown:
  "v \<noteq> [] \<Longrightarrow> \<forall>a \<in> set xs. field a \<noteq> v \<Longrightarrow> filter_by field (Some v) xs = []"
  by (simp add: filter_by_def filter_empty_conv)

lemma sample_high_low:
  "get_high_low_tide_times (service_with [prediction_at t h w] existing) = [prediction_at t h w]"
  by (simp add: get_high_low_tide_times_def service_with_def prediction_at_def)

lemma str_int_1: "str_int 1 = ''1''"
  by (simp add: str_int_def digit_char_def char_of_def)

lemma str_int_14: "str_int 14 = ''14''"
  by (simp add: str_int_def digit_char_def char_of_def)

lemma check_appends_height_alert:
  assumes "st_height_meters (fst (get_current_tide_status e s)) = Some h" and "h > 3.0"
  shows "\<exists>a more.
           fst (check_and_generate_alerts e s)
             = map (expire_alert (clock e (clock_reads (snd (check_and_generate_alerts e s)) - 1))) (a # more)
         \<and> active_alerts (snd (check_and_generate_alerts e s))
             = sweep (clock e (clock_reads (snd (check_and_generate_alerts e s)) - 1)) (active_alerts s @ a # more)
         \<and> alert_type a = (if h > 4.0 then ''STORM_SURGE'' else ''HIGH_TIDE'')
         \<and> severity a = (if h > 4.0 then ''CRITICAL'' else ''HIGH'')
         \<and> tide_height a = h \<and> is_active a
         \<and> (\<forall>b \<in> set more. alert_type b = ''COASTAL_RISK'')
         \<and> (active_coastal_risk (active_alerts s) \<noteq> [] \<longrightarrow> more = [])"
proof -
  obtain st s1 where 1: "get_current_tide_status e s = (st, s1)" by fastforce
  have hs: "st_height_meters st = Some h" using assms(1) 1 by simp
  have a1: "active_alerts s1 = active_alerts s" using 1 status_alerts[of e s] by simp
  have "\<exists>a s2. tide_height_alerts e s1 st = ([a], s2) \<and> active_alerts s2 = active_alerts s1 @ [a]
      \<and> alert_type a = (if h > 4.0 then ''STORM_SURGE'' else ''HIGH_TIDE'')
      \<and> severity a = (if h > 4.0 then ''CRITICAL'' else ''HIGH'')
      \<and> tide_height a = h \<and> is_active a"
  proof (cases "h > 4.0")
    case True
    then have "h > storm_surge_threshold" by (simp add: storm_surge_threshold_def)
    from tide_height_alerts_surge[OF hs this, of e s1] True show ?thesis by auto
  next
    case False
    then have n: "\<not> h > storm_surge_threshold" by (simp add: storm_surge_threshold_def)
    have "h > high_tide_threshold" using assms(2) by (simp add: high_tide_threshold_def)
    from tide_height_alerts_high[OF hs this n, of e s1] False show ?thesis by auto
  qed
  then obtain a s2 where 2: "tide_height_alerts e s1 st = ([a], s2)"
    and a2: "active_alerts s2 = active_alerts s1 @ [a]"
    and a: "alert_type a = (if h > 4.0 then ''STORM_SURGE'' else ''HIGH_TIDE'')"
       "severity a = (if h > 4.0 then ''CRITICAL'' else ''HIGH'')" "tide_height a = h" "is_active a"
    by blast
  obtain n2 s3 where 3: "risk_level_alerts e s2 st = (n2, s3)" by fastforce
  have t: "clock_reads (snd (check_and_generate_alerts e s)) - 1 = clock_reads s3"
    by (rule check_clock[OF 1 2 3])
  have nc: "alert_type a \<noteq> ''COASTAL_RISK''" using a(1) by simp
  have "active_coastal_risk (active_alerts s2) = active_coastal_risk (active_alerts s)"
    using a2 a1 nc by (simp add: active_coastal_risk_def)
  then have d: "active_coastal_risk (active_alerts s) \<noteq> [] \<longrightarrow> n2 = []"
    using risk_level_alerts_props(4)[OF 3] by simp
  have r: "\<forall>b \<in> set n2. alert_type b = ''COASTAL_RISK''"
    using risk_level_alerts_props(3)[OF 3] by simp
  show ?thesis
    apply (rule exI[of _ a], rule exI[of _ n2])
    unfolding t
    using check_shape(1,2)[OF 1 2 3] a r d by simp
qed

lemma sweep_append: "sweep t (xs @ ys) = sweep t xs @ sweep t ys"
  by (simp add: sweep_def Let_def)

lemma sweep_Cons_recent:
  "alert_timestamp a > t - timedelta_hours 24 \<Longrightarrow> sweep t (a # xs) = expire_alert t a # sweep t xs"
  by (simp add: sweep_def Let_def)

lemma sweep_Cons_current:
  "is_active a \<Longrightarrow> \<not> expires_at a < t \<Longrightarrow> sweep t (a # xs) = a # sweep t xs"
  by (simp add: sweep_def Let_def expire_alert_def)

lemma sweep_keeps_current:
  "b \<in> set xs \<Longrightarrow> is_active b \<Longrightarrow> \<not> expires_at b < t \<Longrightarrow> b \<in> set (sweep t xs)"
  by (auto simp: sweep_def Let_def expire_alert_def image_iff intro!: bexI[of _ b])

lemma risk_level_alerts_low:
  "level (st_risk_assessment st) \<noteq> ''HIGH'' \<Longrightarrow> level (st_risk_assessment st) \<noteq> ''CRITICAL'' \<Longrightarrow>
     risk_level_alerts e s st = ([], s)"
  by (simp add: risk_level_alerts_def Let_def)

lemma tide_height_alerts_created:
  assumes "st_height_meters st = Some h" "h > 3.0"
  shows "\<exists>a s'. tide_height_alerts e s st = ([a], s') \<and> active_alerts s' = active_alerts s @ [a]
            \<and> alert_type a = (if h > 4.0 then ''STORM_SURGE'' else ''HIGH_TIDE'')
            \<and> severity a = (if h > 4.0 then ''CRITICAL'' else ''HIGH'')
            \<and> tide_height a = h \<and> is_active a
            \<and> alert_timestamp a = clock e (Suc (clock_reads s))
            \<and> expires_at a = clock e (Suc (Suc (clock_reads s))) + expires_in (severity a)"
proof (cases "h > 4.0")
  case True
  obtain a s' where g: "generate_tide_alert e s ''STORM_SURGE'' ''CRITICAL''
        \<lparr>td_height = Some h, td_impact = Some ''Severe coastal flooding expected'',
         td_recommendations = Some [''Immediate evacuation'', ''Emergency response activation'']\<rparr> = (a, s')"
    by fastforce
  have "h \<noteq> 0" using True by simp
  then have t: "tide_height_alerts e s st = ([a], s')"
    using assms(1) True g by (simp add: tide_height_alerts_def storm_surge_threshold_def)
  have "tide_height a = h" using generate_tide_alert_props(7)[OF g] by simp
  then show ?thesis
    using t generate_tide_alert_props(1-6)[OF g] True by (intro exI[of _ a] exI[of _ s']) simp
next
  case False
  obtain a s' where g: "generate_tide_alert e s ''HIGH_TIDE'' ''HIGH''
        \<lparr>td_height = Some h, td_impact = Some ''Coastal flooding possible'',
         td_recommendations = Some [''Avoid low-lying areas'', ''Monitor conditions'']\<rparr> = (a, s')"
    by fastforce
  have "h \<noteq> 0" using assms(2) by simp
  then have t: "tide_height_alerts e s st = ([a], s')"
    using assms False g
    by (simp add: tide_height_alerts_def storm_surge_threshold_def high_tide_threshold_def)
  have "tide_height a = h" using generate_tide_alert_props(7)[OF g] by simp
  then show ?thesis
    using t generate_tide_alert_props(1-6)[OF g] False by (intro exI[of _ a] exI[of _ s']) simp
qed

lemma check_keeps_height_alert:
  assumes "st_height_meters (fst (get_current_tide_status e s)) = Some h" and "h > 3.0"
  shows "\<exists>a more k.
           fst (check_and_generate_alerts e s)
             = map (expire_alert (clock e (clock_reads (snd (check_and_generate_alerts e s)) - 1))) (a # more)
         \<and> active_alerts (snd (check_and_generate_alerts e s))
             = sweep (clock e (clock_reads (snd (check_and_generate_alerts e s)) - 1)) (active_alerts s)
               @ sweep (clock e (clock_reads (snd (check_and_generate_alerts e s)) - 1)) (a # more)
         \<and> alert_type a = (if h > 4.0 then ''STORM_SURGE'' else ''HIGH_TIDE'')
         \<and> severity a = (if h > 4.0 then ''CRITICAL'' else ''HIGH'')
         \<and> tide_height a = h \<and> is_active a
         \<and> alert_timestamp a = clock e k
         \<and> expires_at a = clock e (Suc k) + expires_in (severity a)
         \<and> (alert_timestamp a > clock e (clock_reads (snd (check_and_generate_alerts e s)) - 1) - timedelta_hours 24
              \<longrightarrow> expire_alert (clock e (clock_reads (snd (check_and_generate_alerts e s)) - 1)) a
                    \<in> set (active_alerts (snd (check_and_generate_alerts e s))))
         \<and> (\<not> expires_at a < clock e (clock_reads (snd (check_and_generate_alerts e s)) - 1)
              \<longrightarrow> active_alerts (snd (check_and_generate_alerts e s))
                    = sweep (clock e (clock_reads (snd (check_and_generate_alerts e s)) - 1)) (active_alerts s)
                      @ a # sweep (clock e (clock_reads (snd (check_and_generate_alerts e s)) - 1)) more)
         \<and> (\<forall>b \<in> set (active_alerts s).
               is_active b \<and> \<not> expires_at b < clock e (clock_reads (snd (check_and_generate_alerts e s)) - 1)
               \<longrightarrow> b \<in> set (active_alerts (snd (check_and_generate_alerts e s))))
         \<and> (\<forall>b \<in> set more. alert_type b = ''COASTAL_RISK'')
         \<and> (active_coastal_risk (active_alerts s) \<noteq> [] \<longrightarrow> more = [])
         \<and> (level (st_risk_assessment (fst (get_current_tide_status e s))) \<noteq> ''HIGH''
            \<and> level (st_risk_assessment (fst (get_current_tide_status e s))) \<noteq> ''CRITICAL''
              \<longrightarrow> more = [])"
proof -
  obtain st s1 where 1: "get_current_tide_status e s = (st, s1)" by fastforce
  have hs: "st_height_meters st = Some h" using assms(1) 1 by simp
  have a1: "active_alerts s1 = active_alerts s" using 1 status_alerts[of e s] by simp
  from tide_height_alerts_created[OF hs assms(2), of e s1]
  obtain a s2 where 2: "tide_height_alerts e s1 st = ([a], s2)"
    and a2: "active_alerts s2 = active_alerts s1 @ [a]"
    and a: "alert_type a = (if h > 4.0 then ''STORM_SURGE'' else ''HIGH_TIDE'')"
       "severity a = (if h > 4.0 then ''CRITICAL'' else ''HIGH'')" "tide_height a = h" "is_active a"
       "alert_timestamp a = clock e (Suc (clock_reads s1))"
       "expires_at a = clock e (Suc (Suc (clock_reads s1))) + expires_in (severity a)"
    by blast
  obtain n2 s3 where 3: "risk_level_alerts e s2 st = (n2, s3)" by fastforce
  define t where "t = clock e (clock_reads s3)"
  have t: "clock e (clock_reads (snd (check_and_generate_alerts e s)) - 1) = t"
    unfolding t_def using check_clock[OF 1 2 3] by simp
  have nc: "alert_type a \<noteq> ''COASTAL_RISK''" using a(1) by simp
  have "active_coastal_risk (active_alerts s2) = active_coastal_risk (active_alerts s)"
    using a2 a1 nc by (simp add: active_coastal_risk_def)
  then have d: "active_coastal_risk (active_alerts s) \<noteq> [] \<longrightarrow> n2 = []"
    using risk_level_alerts_props(4)[OF 3] by simp
  have r: "\<forall>b \<in> set n2. alert_type b = ''COASTAL_RISK''"
    using risk_level_alerts_props(3)[OF 3] by simp
  have l: "level (st_risk_assessment (fst (get_current_tide_status e s))) \<noteq> ''HIGH''
            \<and> level (st_risk_assessment (fst (get_current_tide_status e s))) \<noteq> ''CRITICAL''
              \<longrightarrow> n2 = []"
  proof
    assume "level (st_risk_assessment (fst (get_current_tide_status e s))) \<noteq> ''HIGH''
            \<and> level (st_risk_assessment (fst (get_current_tide_status e s))) \<noteq> ''CRITICAL''"
    then have "level (st_risk_assessment st) \<noteq> ''HIGH''" "level (st_risk_assessment st) \<noteq> ''CRITICAL''"
      using 1 by simp_all
    from risk_level_alerts_low[OF this, of e s2] 3 show "n2 = []" by simp
  qed
  have new: "fst (check_and_generate_alerts e s) = map (expire_alert t) (a # n2)"
    using check_shape(1)[OF 1 2 3] by (simp add: t_def)
  have col: "active_alerts (snd (check_and_generate_alerts e s)) = sweep t (active_alerts s) @ sweep t (a # n2)"
    using check_shape(2)[OF 1 2 3] by (simp add: t_def sweep_append)
  have m: "alert_timestamp a > t - timedelta_hours 24
              \<longrightarrow> expire_alert t a \<in> set (active_alerts (snd (check_and_generate_alerts e s)))"
    unfolding col by (simp add: sweep_Cons_recent)
  have c: "\<not> expires_at a < t
              \<longrightarrow> active_alerts (snd (check_and_generate_alerts e s)) = sweep t (active_alerts s) @ a # sweep t n2"
    unfolding col using a(4) by (simp add: sweep_Cons_current)
  have k: "\<forall>b \<in> set (active_alerts s). is_active b \<and> \<not> expires_at b < t
               \<longrightarrow> b \<in> set (active_alerts (snd (check_and_generate_alerts e s)))"
    unfolding col using sweep_keeps_current by auto
  show ?thesis
    apply (rule exI[of _ a], rule exI[of _ n2], rule exI[of _ "Suc (clock_reads s1)"])
    unfolding t
    using new col a r d l m c k by blast
qed

lemma ensure_history_location [simp]:
  "latitude (ensure_history e s) = latitude s" "longitude (ensure_history e s) = longitude s"
  by (simp_all add: ensure_history_def update_tide_predictions_def now_def Let_def)

lemma get_current_tide_prediction_location [simp]:
  "latitude (snd (get_current_tide_prediction e s t)) = latitude s"
  "longitude (snd (get_current_tide_prediction e s t)) = longitude s"
  by (simp_all add: get_current_tide_prediction_def Let_def split: list.splits)

lemma get_forecast_range_location [simp]:
  "latitude (snd (get_forecast_range e s t h)) = latitude s"
  "longitude (snd (get_forecast_range e s t h)) = longitude s"
  by (simp_all add: get_forecast_range_def Let_def)

lemma get_next_tide_change_location [simp]:
  "latitude (snd (get_next_tide_change e s ps)) = latitude s"
  "longitude (snd (get_next_tide_change e s ps)) = longitude s"
  by (simp_all add: get_next_tide_change_def Let_def now_def split: option.splits)

lemma status_location:
  "latitude (snd (get_current_tide_status e s)) = latitude s"
  "longitude (snd (get_current_tide_status e s)) = longitude s"
  by (simp_all add: get_current_tide_status_def Let_def split_beta)

lemma first_number_4: "first_number ''4.0 m/s'' = Some (Finite 4)"
  by (simp add: first_number_def py_split_def is_space_def py_float_def unsigned_float_def
      mantissa_def exponent_factor_def to_lower_def is_digit_def digits_value_def)

lemma high_tide_level:
  "level (assess_current_risk (Some (prediction_at t0 3.2 calm_weather))
            [prediction_at t0 3.2 calm_weather]) = ''MEDIUM''"
proof -
  have a: "forecast_risk [prediction_at t0 3.2 calm_weather]
             (weather_risk (prediction_at t0 3.2 calm_weather)
               (tide_height_risk (prediction_at t0 3.2 calm_weather) (0, []))) =
          (4, [''High tide conditions'', ''High tide forecast''])"
    by (simp add: prediction_at_def calm_weather_def forecast_risk_def
      weather_risk_def tide_height_risk_def add_risk_def first_number_4
      storm_surge_threshold_def high_tide_threshold_def)
  show ?thesis unfolding assess_from_acc(2)[OF a] by (simp add: risk_level_of_def)
qed

lemma high_tide_status_level:
  "level (st_risk_assessment (fst (get_current_tide_status frozen_env
      (service_with [prediction_at t0 3.2 calm_weather] existing)))) = ''MEDIUM''"
proof -
  have "st_risk_assessment (fst (get_current_tide_status frozen_env
      (service_with [prediction_at t0 3.2 calm_weather] existing)))
          = assess_current_risk (Some (prediction_at t0 3.2 calm_weather)) [prediction_at t0 3.2 calm_weather]"
    by (rule status_risk_single) (simp_all add: service_with_def prediction_at_def frozen_env_def)
  then show ?thesis using high_tide_level by simp
qed

lemma frozen_clock: "clock frozen_env n = t0"
  by (simp add: frozen_env_def)

lemma sweep_current: "sweep t0 [current_high_tide_alert] = [current_high_tide_alert]"
  by (simp add: sweep_def expire_alert_def current_high_tide_alert_def sample_alert_def
       timedelta_hours_def)

lemma generate_frozen:
  "latitude s = 37.7749 \<Longrightarrow> longitude s = -122.4194 \<Longrightarrow>
   fst (generate_tide_alert frozen_env s ''HIGH_TIDE'' ''HIGH''
        \<lparr>td_height = Some 3.2, td_impact = Some ''Coastal flooding possible'',
         td_recommendations = Some [''Avoid low-lying areas'', ''Monitor conditions'']\<rparr>) = new_high_tide_alert"
  by (simp add: generate_tide_alert_def now_def frozen_env_def new_high_tide_alert_def sample_alert_def
        expires_in_def Let_def)

lemma sample_check_collection:
  "active_alerts (snd (check_and_generate_alerts frozen_env
      (service_with [prediction_at t0 3.2 calm_weather] [current_high_tide_alert])))
     = [current_high_tide_alert, new_high_tide_alert]"
proof -
  let ?s = "service_with [prediction_at t0 3.2 calm_weather] [current_high_tide_alert]"
  obtain st s1 where 1: "get_current_tide_status frozen_env ?s = (st, s1)" by fastforce
  have hs: "st_height_meters st = Some 3.2" using high_status_height[of "[current_high_tide_alert]"] 1 by simp
  have lv: "level (st_risk_assessment st) = ''MEDIUM''"
    using high_tide_status_level[of "[current_high_tide_alert]"] 1 by simp
  have loc: "latitude s1 = 37.7749" "longitude s1 = -122.4194"
    using status_location[of frozen_env ?s] 1 by (simp_all add: service_with_def)
  obtain a s2 where g: "generate_tide_alert frozen_env s1 ''HIGH_TIDE'' ''HIGH''
        \<lparr>td_height = Some 3.2, td_impact = Some ''Coastal flooding possible'',
         td_recommendations = Some [''Avoid low-lying areas'', ''Monitor conditions'']\<rparr> = (a, s2)"
    by fastforce
  have a: "a = new_high_tide_alert" using generate_frozen[OF loc] g by simp
  have 2: "tide_height_alerts frozen_env s1 st = ([a], s2)"
    using hs g by (simp add: tide_height_alerts_def storm_surge_threshold_def high_tide_threshold_def)
  have 3: "risk_level_alerts frozen_env s2 st = ([], s2)"
    by (rule risk_level_alerts_low) (simp_all add: lv)
  have n: "sweep t0 [new_high_tide_alert] = [new_high_tide_alert]"
    by (simp add: sweep_def expire_alert_def new_high_tide_alert_def sample_alert_def timedelta_hours_def)
  have "active_alerts (snd (check_and_generate_alerts frozen_env ?s))
          = sweep t0 ([current_high_tide_alert] @ [new_high_tide_alert])"
    using check_shape(2)[OF 1 2 3] by (simp add: frozen_clock a service_with_def)
  then show ?thesis unfolding sweep_append sweep_current n by simp
qed

lemma is_active_new: "is_active new_high_tide_alert" "alert_type new_high_tide_alert = ''HIGH_TIDE''"
  by (simp_all add: new_high_tide_alert_def sample_alert_def)

section \<open>The claims\<close>

text \<open>
  C1 (as amended). The live assessment of a current prediction of height 3.5 m in stormy
  weather with a wind of 18 m/s, when none of the next six forecast points is above
  3.0 m, has score 10 (3 for the height, 4 for the storm, 3 for the wind) and level
  CRITICAL. The lunar mansion and the tide type are not read by the live assessment:
  the point for a high-risk mansion is given by \<open>get_hazard_assessment\<close> only.
\<close>

theorem live_risk_scenario:
  assumes "height_meters c = 3.5"
      and "weather_info c = Some w" and "condition w = ''stormy''"
      and "first_number (wind_speed w) = Some (Finite 18)"
      and "\<forall>p \<in> set (take 6 forecast). \<not> height_meters p > 3.0"
  shows "score (assess_current_risk (Some c) forecast) = 10
         \<and> level (assess_current_risk (Some c) forecast) = ''CRITICAL''"
proof -
  have f: "forecast_risk forecast acc = acc" for acc
    using assms(5) forecast_risk_none by (simp add: high_tide_threshold_def)
  have "weather_risk c (tide_height_risk c (0, [])) =
          (10, [''High tide conditions'', ''Stormy weather'', ''High winds''])"
    using assms(1-4)
    by (simp add: weather_risk_def tide_height_risk_def add_risk_def storm_surge_threshold_def
        high_tide_threshold_def)
  then have a: "forecast_risk forecast (weather_risk c (tide_height_risk c (0, []))) =
          (10, [''High tide conditions'', ''Stormy weather'', ''High winds''])"
    by (simp add: f)
  have "risk_level_of 10 = ''CRITICAL''" by (simp add: risk_level_of_def)
  then show ?thesis using assess_from_acc(1,2)[OF a] by simp
qed

theorem live_risk_scenario_witness:
  "score (assess_current_risk (Some (prediction_at t0 3.5 stormy_weather))
            [prediction_at (t0 + timedelta_hours 1) 2.8 calm_weather]) = 10
   \<and> level (assess_current_risk (Some (prediction_at t0 3.5 stormy_weather))
            [prediction_at (t0 + timedelta_hours 1) 2.8 calm_weather]) = ''CRITICAL''"
  using live_risk_scenario[of "prediction_at t0 3.5 stormy_weather" stormy_weather
          "[prediction_at (t0 + timedelta_hours 1) 2.8 calm_weather]"]
  by (simp add: prediction_at_def stormy_weather_def first_number_18)

text \<open>
  The claim as stated, with the mansion counted, gives 11. At a prediction with every
  input of the claim, the mansion Ashwini of the high-risk list included, the live score
  is not 11.
\<close>

theorem live_risk_mansion_counterexample:
  "height_meters (prediction_at t0 3.5 stormy_weather) = 3.5
   \<and> tide_type (prediction_at t0 3.5 stormy_weather) = ''high''
   \<and> weather_info (prediction_at t0 3.5 stormy_weather) = Some stormy_weather
   \<and> condition stormy_weather = ''stormy''
   \<and> first_number (wind_speed stormy_weather) = Some (Finite 18)
   \<and> nakshatra (hindu_factors (prediction_at t0 3.5 stormy_weather)) \<in> set high_risk_nakshatras
   \<and> score (assess_current_risk (Some (prediction_at t0 3.5 stormy_weather)) []) \<noteq> 11"
proof -
  have a: "forecast_risk [] (weather_risk (prediction_at t0 3.5 stormy_weather)
             (tide_height_risk (prediction_at t0 3.5 stormy_weather) (0, []))) =
          (10, [''High tide conditions'', ''Stormy weather'', ''High winds''])"
    by (simp add: prediction_at_def stormy_weather_def forecast_risk_def
      weather_risk_def tide_height_risk_def add_risk_def first_number_18
      storm_surge_threshold_def high_tide_threshold_def)
  have "score (assess_current_risk (Some (prediction_at t0 3.5 stormy_weather)) []) = 10"
    using assess_from_acc(1)[OF a] .
  then show ?thesis
    by (simp add: prediction_at_def stormy_weather_def first_number_18 high_risk_nakshatras_def)
qed

text \<open>
  C2 (as amended). The astronomical component is the base height plus 0.5 times the sine
  of 2 pi (hour + minute / 60) / 12.42: the coefficient is the constant 0.5 and does not
  depend on the \<open>tide_range\<close> of the calculator, which is stored and never read. The
  defaults are a base height of 1.5 and a range of 2.0.
\<close>

theorem astronomical_tide_formula:
  "astronomical_tide calc t =
     base_height calc
       + 0.5 * sin (2 * pi * (real_of_int ((t div 3600000000) mod 24)
                              + real_of_int ((t div 60000000) mod 60) / 60) / 12.42)
   \<and> astronomical_tide (calc\<lparr>tide_range := r\<rparr>) t = astronomical_tide calc t
   \<and> base_height default_tide_calculator = 1.5 \<and> tide_range default_tide_calculator = 2.0"
  by (simp add: astronomical_tide_def hour_factor_def dt_hour_def dt_minute_def
      default_tide_calculator_def)

theorem astronomical_tide_formula_witness:
  "astronomical_tide default_tide_calculator (t0 + 10800000000 + 1800000000)
      = 1.5 + 0.5 * sin (2 * pi * 3.5 / 12.42)"
  using astronomical_tide_formula[of default_tide_calculator "t0 + 10800000000 + 1800000000" 2]
  by (simp add: t0_def default_tide_calculator_def)

text \<open>
  The claim as stated has the coefficient \<open>tide_range / 2\<close>, which is 1.0 for the default
  calculator. At 03:00 the sine is positive and the two values differ.
\<close>

theorem astronomical_tide_amplitude_counterexample:
  "astronomical_tide default_tide_calculator 10800000000 \<noteq>
     base_height default_tide_calculator
       + tide_range default_tide_calculator / 2 * sin (2 * pi * hour_factor 10800000000 / 12.42)"
  using sin_pos_3h by (simp add: astronomical_tide_def default_tide_calculator_def hour_factor_3h)

text \<open>
  C3 (as amended). A forecast request is never refused for its horizon: the handler
  clamps the number of days into 1..14 and answers as for the clamped number (so 0 is
  served as 1 and 30 as 14). An alert-list request is never refused for its filters: the
  status is 200, and a type or severity that no alert of the collection carries gives an
  empty list with a count of 0.
\<close>

theorem api_clamps_and_filters:
  "api_get_tide_forecast e svc (Some d) = api_get_tide_forecast e svc (Some (min (max d 1) 14))
   \<and> (tide_history s \<noteq> [] \<longrightarrow>
        fst (api_get_tide_forecast e (Some s) (Some d)) =
          Response 200 (Forecast \<lparr>fc_location = (location_name s, latitude s, longitude s),
               forecast_period = str_int (min (max d 1) 14) @ '' days'',
               generated_at = clock e (clock_reads s),
               high_low_tides = get_high_low_tide_times s\<rparr>))
   \<and> \<not> alerts_rejected (fst (api_get_alerts e (Some s) type_arg severity_arg))
   \<and> (ty \<noteq> [] \<and> (\<forall>a \<in> set (active_alerts s). alert_type a \<noteq> ty) \<longrightarrow>
        fst (api_get_alerts e (Some s) (Some ty) severity_arg) =
          Response 200 (Alerts \<lparr>alerts = [], total_count = 0, body_timestamp = clock e (clock_reads s)\<rparr>))
   \<and> (sev \<noteq> [] \<and> (\<forall>a \<in> set (active_alerts s). severity a \<noteq> sev) \<longrightarrow>
        fst (api_get_alerts e (Some s) type_arg (Some sev)) =
          Response 200 (Alerts \<lparr>alerts = [], total_count = 0, body_timestamp = clock e (clock_reads s)\<rparr>))"
proof -
  have 1: "api_get_tide_forecast e svc (Some d) = api_get_tide_forecast e svc (Some (min (max d 1) 14))"
  proof -
    have "min (max (min (max d 1) 14) 1) 14 = min (max d 1) 14" by (simp add: min_def max_def)
    then show ?thesis by (simp add: api_get_tide_forecast_def Let_def split: option.splits)
  qed
  have 2: "tide_history s \<noteq> [] \<longrightarrow>
        fst (api_get_tide_forecast e (Some s) (Some d)) =
          Response 200 (Forecast \<lparr>fc_location = (location_name s, latitude s, longitude s),
               forecast_period = str_int (min (max d 1) 14) @ '' days'',
               generated_at = clock e (clock_reads s),
               high_low_tides = get_high_low_tide_times s\<rparr>)"
    by (simp add: api_get_tide_forecast_def forecast_with_history)
  have 3: "\<not> alerts_rejected (fst (api_get_alerts e (Some s) type_arg severity_arg))"
    by (simp add: api_get_alerts_def alerts_rejected_def Let_def split_beta)
  have 4: "ty \<noteq> [] \<and> (\<forall>a \<in> set (active_alerts s). alert_type a \<noteq> ty) \<longrightarrow>
        fst (api_get_alerts e (Some s) (Some ty) severity_arg) =
          Response 200 (Alerts \<lparr>alerts = [], total_count = 0, body_timestamp = clock e (clock_reads s)\<rparr>)"
  proof
    assume a: "ty \<noteq> [] \<and> (\<forall>a \<in> set (active_alerts s). alert_type a \<noteq> ty)"
    then have "filter_by alert_type (Some ty) (active_alerts s) = []"
      using filter_by_unknown[of ty "active_alerts s" alert_type] by simp
    moreover have "filter_by severity severity_arg [] = []"
      by (simp add: filter_by_def split: option.splits)
    ultimately show "fst (api_get_alerts e (Some s) (Some ty) severity_arg) =
          Response 200 (Alerts \<lparr>alerts = [], total_count = 0, body_timestamp = clock e (clock_reads s)\<rparr>)"
      by (simp add: api_get_alerts_def Let_def split_beta)
  qed
  have 5: "sev \<noteq> [] \<and> (\<forall>a \<in> set (active_alerts s). severity a \<noteq> sev) \<longrightarrow>
        fst (api_get_alerts e (Some s) type_arg (Some sev)) =
          Response 200 (Alerts \<lparr>alerts = [], total_count = 0, body_timestamp = clock e (clock_reads s)\<rparr>)"
  proof
    assume a: "sev \<noteq> [] \<and> (\<forall>a \<in> set (active_alerts s). severity a \<noteq> sev)"
    have "\<forall>a \<in> set (filter_by alert_type type_arg (active_alerts s)). severity a \<noteq> sev"
      using a by (auto simp: filter_by_def split: option.splits if_splits)
    then have "filter_by severity (Some sev) (filter_by alert_type type_arg (active_alerts s)) = []"
      using a filter_by_unknown[of sev "filter_by alert_type type_arg (active_alerts s)" severity] by simp
    then show "fst (api_get_alerts e (Some s) type_arg (Some sev)) =
          Response 200 (Alerts \<lparr>alerts = [], total_count = 0, body_timestamp = clock e (clock_reads s)\<rparr>)"
      by (simp add: api_get_alerts_def Let_def split_beta)
  qed
  show ?thesis using 1 2 3 4 5 by blast
qed

theorem api_clamps_and_filters_witness:
  "fst (api_get_tide_forecast ticking_env
          (Some (service_with [prediction_at t0 2.0 calm_weather] [current_high_tide_alert])) (Some 30)) =
     Response 200 (Forecast \<lparr>fc_location = (''Lat: 37.7749, Lon: -122.4194'', 37.7749, -122.4194),
               forecast_period = ''14 days'', generated_at = t0,
               high_low_tides = [prediction_at t0 2.0 calm_weather]\<rparr>)
   \<and> fst (api_get_alerts ticking_env
          (Some (service_with [prediction_at t0 2.0 calm_weather] [current_high_tide_alert]))
          (Some ''TSUNAMI'') None) =
     Response 200 (Alerts \<lparr>alerts = [], total_count = 0, body_timestamp = t0\<rparr>)"
proof -
  let ?s = "service_with [prediction_at t0 2.0 calm_weather] [current_high_tide_alert]"
  note T = api_clamps_and_filters[of ticking_env "Some ?s" 30 ?s None None "''TSUNAMI''" "''x''"]
  have h: "tide_history ?s \<noteq> []" by (simp add: service_with_def)
  have u: "''TSUNAMI'' \<noteq> [] \<and> (\<forall>a \<in> set (active_alerts ?s). alert_type a \<noteq> ''TSUNAMI'')"
    by (simp add: service_with_def current_high_tide_alert_def sample_alert_def)
  have c: "clock ticking_env (clock_reads ?s) = t0" by (simp add: service_with_def ticking_env_def)
  have l: "(location_name ?s, latitude ?s, longitude ?s) = (''Lat: 37.7749, Lon: -122.4194'', 37.7749, -122.4194)"
    by (simp add: service_with_def)
  have p: "str_int (min (max 30 1) 14) @ '' days'' = ''14 days''" by (simp add: str_int_14)
  from T h have "fst (api_get_tide_forecast ticking_env (Some ?s) (Some 30)) =
          Response 200 (Forecast \<lparr>fc_location = (location_name ?s, latitude ?s, longitude ?s),
               forecast_period = str_int (min (max 30 1) 14) @ '' days'',
               generated_at = clock ticking_env (clock_reads ?s),
               high_low_tides = get_high_low_tide_times ?s\<rparr>)"
    by blast
  then have 1: "fst (api_get_tide_forecast ticking_env (Some ?s) (Some 30)) =
     Response 200 (Forecast \<lparr>fc_location = (''Lat: 37.7749, Lon: -122.4194'', 37.7749, -122.4194),
               forecast_period = ''14 days'', generated_at = t0,
               high_low_tides = [prediction_at t0 2.0 calm_weather]\<rparr>)"
    unfolding c l p sample_high_low .
  from T u have "fst (api_get_alerts ticking_env (Some ?s) (Some ''TSUNAMI'') None) =
          Response 200 (Alerts \<lparr>alerts = [], total_count = 0,
             body_timestamp = clock ticking_env (clock_reads ?s)\<rparr>)"
    by blast
  then have 2: "fst (api_get_alerts ticking_env (Some ?s) (Some ''TSUNAMI'') None) =
     Response 200 (Alerts \<lparr>alerts = [], total_count = 0, body_timestamp = t0\<rparr>)"
    unfolding c .
  show ?thesis using 1 2 by (rule conjI)
qed

text \<open>
  The claim as stated has both requests refused. A horizon of 0 days, and an unknown type
  with an unknown severity, are both answered with status 200 and a body that is no
  error.
\<close>

theorem api_invalid_input_counterexample:
  "\<not> forecast_rejected (fst (api_get_tide_forecast ticking_env
          (Some (service_with [prediction_at t0 2.0 calm_weather] [current_high_tide_alert])) (Some 0)))
   \<and> payload (fst (api_get_tide_forecast ticking_env
          (Some (service_with [prediction_at t0 2.0 calm_weather] [current_high_tide_alert])) (Some 0))) =
       Forecast \<lparr>fc_location = (''Lat: 37.7749, Lon: -122.4194'', 37.7749, -122.4194),
               forecast_period = ''1 days'', generated_at = t0,
               high_low_tides = [prediction_at t0 2.0 calm_weather]\<rparr>
   \<and> \<not> alerts_rejected (fst (api_get_alerts ticking_env
          (Some (service_with [prediction_at t0 2.0 calm_weather] [current_high_tide_alert]))
          (Some ''TSUNAMI'') (Some ''EXTREME'')))
   \<and> payload (fst (api_get_alerts ticking_env
          (Some (service_with [prediction_at t0 2.0 calm_weather] [current_high_tide_alert]))
          (Some ''TSUNAMI'') (Some ''EXTREME''))) =
       Alerts \<lparr>alerts = [], total_count = 0, body_timestamp = t0\<rparr>"
proof -
  let ?s = "service_with [prediction_at t0 2.0 calm_weather] [current_high_tide_alert]"
  have h: "tide_history ?s \<noteq> []" by (simp add: service_with_def)
  have f: "fst (api_get_tide_forecast ticking_env (Some ?s) (Some 0)) =
     Response 200 (Forecast \<lparr>fc_location = (''Lat: 37.7749, Lon: -122.4194'', 37.7749, -122.4194),
               forecast_period = ''1 days'', generated_at = t0,
               high_low_tides = [prediction_at t0 2.0 calm_weather]\<rparr>)"
    using h by (simp add: api_get_tide_forecast_def forecast_with_history sample_high_low str_int_1)
               (simp add: service_with_def ticking_env_def)
  have a: "fst (api_get_alerts ticking_env (Some ?s) (Some ''TSUNAMI'') (Some ''EXTREME'')) =
     Response 200 (Alerts \<lparr>alerts = [], total_count = 0, body_timestamp = t0\<rparr>)"
    by (simp add: api_get_alerts_def filter_by_def Let_def now_def)
       (simp add: service_with_def ticking_env_def current_high_tide_alert_def sample_alert_def)
  show ?thesis unfolding f a by (simp add: forecast_rejected_def alerts_rejected_def)
qed

text \<open>
  C4. From a state with at most one active alert of type COASTAL_RISK, every sequence of
  calls of \<open>check_and_generate_alerts\<close> leads to a state with at most one active alert
  of type COASTAL_RISK, whatever the clock and the tide do.
\<close>

theorem at_most_one_active_coastal_risk:
  "length (active_coastal_risk (active_alerts s)) \<le> 1 \<Longrightarrow>
     length (active_coastal_risk (active_alerts (run_checks e n s))) \<le> 1"
proof (induction n arbitrary: s)
  case 0
  then show ?case by simp
next
  case (Suc n)
  from check_step[OF Suc.prems]
  have "length (active_coastal_risk (active_alerts (snd (check_and_generate_alerts e s)))) \<le> 1" .
  from Suc.IH[OF this] show ?case by simp
qed

theorem at_most_one_active_coastal_risk_witness:
  "length (active_coastal_risk
      (active_alerts (service_with [prediction_at t0 4.2 stormy_weather] [stale_alert]))) \<le> 1
   \<and> length (active_coastal_risk (active_alerts
        (run_checks ticking_env 3 (service_with [prediction_at t0 4.2 stormy_weather] [stale_alert]))))
      \<le> 1"
proof -
  have h: "length (active_coastal_risk
      (active_alerts (service_with [prediction_at t0 4.2 stormy_weather] [stale_alert]))) \<le> 1"
    by (simp add: service_with_def active_coastal_risk_def)
  show ?thesis using h at_most_one_active_coastal_risk[OF h, of ticking_env 3] by simp
qed

text \<open>
  C5 (as amended). The sweep is the last step of \<open>check_and_generate_alerts\<close> and runs
  nowhere else: \<open>get_current_tide_status\<close> leaves the collection as it is and counts the
  alerts whose \<open>is_active\<close> flag is set, expired or not. After a call of
  \<open>check_and_generate_alerts\<close>, no alert of the collection and no alert returned is active
  with an \<open>expires_at\<close> before the instant that the sweep of this call read from the clock
  (the last reading of the call).
\<close>

theorem sweep_runs_last:
  "active_alerts (snd (get_current_tide_status e s)) = active_alerts s
   \<and> st_active_alerts (fst (get_current_tide_status e s)) = length (filter is_active (active_alerts s))
   \<and> (\<forall>a \<in> set (active_alerts (snd (check_and_generate_alerts e s))).
        expires_at a < clock e (clock_reads (snd (check_and_generate_alerts e s)) - 1) \<longrightarrow> \<not> is_active a)
   \<and> (\<forall>a \<in> set (fst (check_and_generate_alerts e s)).
        expires_at a < clock e (clock_reads (snd (check_and_generate_alerts e s)) - 1) \<longrightarrow> \<not> is_active a)"
proof -
  obtain st s1 where 1: "get_current_tide_status e s = (st, s1)" by fastforce
  obtain n1 s2 where 2: "tide_height_alerts e s1 st = (n1, s2)" by fastforce
  obtain n2 s3 where 3: "risk_level_alerts e s2 st = (n2, s3)" by fastforce
  have t: "clock_reads (snd (check_and_generate_alerts e s)) - 1 = clock_reads s3"
    by (rule check_clock[OF 1 2 3])
  have c: "\<forall>a \<in> set (active_alerts (snd (check_and_generate_alerts e s))).
        expires_at a < clock e (clock_reads s3) \<longrightarrow> \<not> is_active a"
    unfolding check_shape(2)[OF 1 2 3] using sweep_expired_inactive by blast
  have n: "\<forall>a \<in> set (fst (check_and_generate_alerts e s)).
        expires_at a < clock e (clock_reads s3) \<longrightarrow> \<not> is_active a"
    unfolding check_shape(1)[OF 1 2 3] by (auto simp: expire_alert_def)
  show ?thesis unfolding t using c n status_alerts[of e s] status_count[of e s] by simp
qed

theorem sweep_runs_last_witness:
  "\<exists>a \<in> set (active_alerts (snd (check_and_generate_alerts frozen_env
            (service_with [prediction_at t0 4.2 stormy_weather] [stale_alert])))).
      expires_at a < t0 \<and> \<not> is_active a"
proof -
  let ?s = "service_with [prediction_at t0 4.2 stormy_weather] [stale_alert]"
  have f: "clock frozen_env n = t0" for n by (simp add: frozen_env_def)
  have s: "active_alerts ?s = [stale_alert]" by (simp add: service_with_def)
  from check_appends_height_alert[OF surge_status_height[of "[stale_alert]"]]
  obtain a more where "active_alerts (snd (check_and_generate_alerts frozen_env ?s))
             = sweep t0 ([stale_alert] @ a # more)"
    unfolding f s by auto
  then have m: "expire_alert t0 stale_alert \<in> set (active_alerts (snd (check_and_generate_alerts frozen_env ?s)))"
    using stale_facts by (simp add: sweep_def Let_def expire_alert_def)
  have e: "expires_at (expire_alert t0 stale_alert) < t0" using stale_facts by simp
  from sweep_runs_last[of frozen_env ?s] m e
  have "\<not> is_active (expire_alert t0 stale_alert)" unfolding f by blast
  with m e show ?thesis by blast
qed

text \<open>
  The claim as stated has the sweep before every read and before the check for an
  existing alert. With one alert that expired an hour ago and was not swept, the status
  counts it as active, and the check, at level CRITICAL, creates no COASTAL_RISK alert
  because of it.
\<close>

theorem status_counts_expired_alert_counterexample:
  "active_alerts (service_with [prediction_at t0 4.2 stormy_weather] [stale_alert]) = [stale_alert]
   \<and> expires_at stale_alert
       < st_timestamp (fst (get_current_tide_status ticking_env
            (service_with [prediction_at t0 4.2 stormy_weather] [stale_alert])))
   \<and> st_active_alerts (fst (get_current_tide_status ticking_env
            (service_with [prediction_at t0 4.2 stormy_weather] [stale_alert]))) = 1
   \<and> level (st_risk_assessment (fst (get_current_tide_status ticking_env
            (service_with [prediction_at t0 4.2 stormy_weather] [stale_alert])))) = ''CRITICAL''
   \<and> filter (\<lambda>a. alert_type a = ''COASTAL_RISK'')
        (fst (check_and_generate_alerts ticking_env
            (service_with [prediction_at t0 4.2 stormy_weather] [stale_alert]))) = []"
proof -
  let ?s = "service_with [prediction_at t0 4.2 stormy_weather] [stale_alert]"
  have 1: "active_alerts ?s = [stale_alert]" by (simp add: service_with_def)
  have 2: "expires_at stale_alert < st_timestamp (fst (get_current_tide_status ticking_env ?s))"
    using stale_facts(1) by (simp add: status_timestamp service_with_def ticking_env_def)
  have 3: "st_active_alerts (fst (get_current_tide_status ticking_env ?s)) = 1"
    using stale_facts(2) by (simp add: status_count service_with_def)
  have "st_risk_assessment (fst (get_current_tide_status ticking_env ?s))
          = assess_current_risk (Some (prediction_at t0 4.2 stormy_weather)) [prediction_at t0 4.2 stormy_weather]"
    by (rule status_risk_single) (simp_all add: service_with_def prediction_at_def ticking_env_def)
  then have 4: "level (st_risk_assessment (fst (get_current_tide_status ticking_env ?s))) = ''CRITICAL''"
    using surge_level by simp
  have "active_coastal_risk (active_alerts ?s) \<noteq> []"
    using stale_facts(2,3) by (simp add: service_with_def active_coastal_risk_def)
  from expired_blocks_new_risk_alert[OF this]
  have 5: "filter (\<lambda>a. alert_type a = ''COASTAL_RISK'') (fst (check_and_generate_alerts ticking_env ?s)) = []" .
  show ?thesis using 1 2 3 4 5 by simp
qed

text \<open>
  C6. Every prediction that \<open>predict_tides\<close> returns, for any start, any horizon and any
  weather, has a height between 0.1 and 5.0.
\<close>

theorem predict_tides_height_bounds:
  "p \<in> set (predict_tides feed calls start days) \<Longrightarrow>
     0.1 \<le> height_meters p \<and> height_meters p \<le> 5.0"
proof -
  assume "p \<in> set (predict_tides feed calls start days)"
  then obtain i where "p = predict_step feed calls start i"
    by (auto simp: predict_tides_def)
  then have "height_meters p = calculate_tide_height default_tide_calculator
      (start + timedelta_hours (int i))
      (get_tide_influence (get_current_hindu_date (start + timedelta_hours (int i))))"
    by (simp add: predict_step_def Let_def)
  then show ?thesis using calculate_tide_height_bounds by simp
qed

theorem predict_tides_height_bounds_witness:
  "predict_tides (weather_feed ticking_env) 0 t0 1 ! 0 \<in> set (predict_tides (weather_feed ticking_env) 0 t0 1)
   \<and> height_meters (predict_tides (weather_feed ticking_env) 0 t0 1 ! 0) = 1.95
   \<and> 0.1 \<le> height_meters (predict_tides (weather_feed ticking_env) 0 t0 1 ! 0)
   \<and> height_meters (predict_tides (weather_feed ticking_env) 0 t0 1 ! 0) \<le> 5.0"
proof -
  have m: "predict_tides (weather_feed ticking_env) 0 t0 1 ! 0
             \<in> set (predict_tides (weather_feed ticking_env) 0 t0 1)"
    by (rule nth_mem) (simp add: predict_tides_def)
  have "height_meters (predict_step (weather_feed ticking_env) 0 t0 0) = 1.95"
    using height_t0 by (simp add: predict_step_def Let_def timedelta_hours_def)
  then have v: "height_meters (predict_tides (weather_feed ticking_env) 0 t0 1 ! 0) = 1.95"
    by (simp only: first_step_t0)
  show ?thesis using m v predict_tides_height_bounds[OF m] by simp
qed



text \<open>
  C8 (as amended). \<open>generate_tide_alert\<close> reads the clock once for \<open>timestamp\<close> and once
  more for \<open>expires_at\<close>. The gap between the two fields is the duration of the severity
  (CRITICAL 2 hours, HIGH 4, MEDIUM 6, any other 12) plus the time between the two readings;
  \<open>expires_at\<close> is after \<open>timestamp\<close> when the clock did not go back between them.
\<close>

theorem alert_expiry_gap:
  assumes "generate_tide_alert e s ty sev d = (a, s')"
  shows "expires_at a - alert_timestamp a =
           timedelta_hours (if sev = ''CRITICAL'' then 2 else if sev = ''HIGH'' then 4
                            else if sev = ''MEDIUM'' then 6 else 12)
           + (clock e (clock_reads s + 2) - clock e (clock_reads s + 1))
         \<and> (clock e (clock_reads s + 1) \<le> clock e (clock_reads s + 2)
              \<longrightarrow> alert_timestamp a < expires_at a)"
  using generate_tide_alert_props(5,6)[OF assms]
  by (simp add: expires_in_def timedelta_hours_def)

theorem alert_expiry_gap_witness:
  "expires_at (fst (generate_tide_alert ticking_env (service_with [] []) ''STORM_SURGE'' ''CRITICAL'' surge_data))
     - alert_timestamp (fst (generate_tide_alert ticking_env (service_with [] []) ''STORM_SURGE'' ''CRITICAL'' surge_data))
     = timedelta_hours 2 + 1
   \<and> alert_timestamp (fst (generate_tide_alert ticking_env (service_with [] []) ''STORM_SURGE'' ''CRITICAL'' surge_data))
     < expires_at (fst (generate_tide_alert ticking_env (service_with [] []) ''STORM_SURGE'' ''CRITICAL'' surge_data))"
  using alert_expiry_gap[of ticking_env "service_with [] []" "''STORM_SURGE''" "''CRITICAL''" surge_data
          "fst (generate_tide_alert ticking_env (service_with [] []) ''STORM_SURGE'' ''CRITICAL'' surge_data)"
          "snd (generate_tide_alert ticking_env (service_with [] []) ''STORM_SURGE'' ''CRITICAL'' surge_data)"]
  by (simp add: ticking_env_def service_with_def)

text \<open>
  The claim as stated has a gap of exactly the duration. With a clock that advances by a
  microsecond between readings, a CRITICAL alert has a gap that is not 2 hours.
\<close>

theorem expiry_gap_clock_counterexample:
  "severity (fst (generate_tide_alert ticking_env (service_with [] []) ''STORM_SURGE'' ''CRITICAL'' surge_data)) = ''CRITICAL''
   \<and> expires_at (fst (generate_tide_alert ticking_env (service_with [] []) ''STORM_SURGE'' ''CRITICAL'' surge_data))
     - alert_timestamp (fst (generate_tide_alert ticking_env (service_with [] []) ''STORM_SURGE'' ''CRITICAL'' surge_data))
     \<noteq> timedelta_hours 2"
proof -
  have g: "generate_tide_alert ticking_env (service_with [] []) ''STORM_SURGE'' ''CRITICAL'' surge_data
     = (fst (generate_tide_alert ticking_env (service_with [] []) ''STORM_SURGE'' ''CRITICAL'' surge_data),
        snd (generate_tide_alert ticking_env (service_with [] []) ''STORM_SURGE'' ''CRITICAL'' surge_data))"
    by simp
  show ?thesis
    using generate_tide_alert_props(3,5,6)[OF g]
    by (simp add: ticking_env_def service_with_def expires_in_def)
qed

text \<open>
  C9. When the clock returns the same instant for both, a second run of
  \<open>_cleanup_expired_alerts\<close> right after a first leaves the collection as the first left it:
  it changes no \<open>is_active\<close>, removes no alert, and the two states differ by the count of
  clock readings only.
\<close>

theorem cleanup_twice_same_time:
  assumes "clock e (Suc (clock_reads s)) = clock e (clock_reads s)"
  shows "active_alerts (cleanup_expired_alerts e (cleanup_expired_alerts e s))
           = active_alerts (cleanup_expired_alerts e s)
         \<and> map (expire_alert (clock e (clock_reads s))) (active_alerts (cleanup_expired_alerts e s))
           = active_alerts (cleanup_expired_alerts e s)
         \<and> filter (\<lambda>a. is_active a \<or> alert_timestamp a > clock e (clock_reads s) - timedelta_hours 24)
                  (active_alerts (cleanup_expired_alerts e s))
           = active_alerts (cleanup_expired_alerts e s)
         \<and> cleanup_expired_alerts e (cleanup_expired_alerts e s)
           = (cleanup_expired_alerts e s)\<lparr>clock_reads := clock_reads s + 2\<rparr>"
  using assms
  by (simp add: cleanup_expired_alerts_def now_def sweep_idem sweep_no_flip sweep_keeps_all)

theorem cleanup_twice_same_time_witness:
  "active_alerts (cleanup_expired_alerts frozen_env (service_with [] [stale_alert, current_high_tide_alert]))
      = [stale_alert\<lparr>is_active := False\<rparr>, current_high_tide_alert]
   \<and> active_alerts (cleanup_expired_alerts frozen_env
        (cleanup_expired_alerts frozen_env (service_with [] [stale_alert, current_high_tide_alert])))
      = [stale_alert\<lparr>is_active := False\<rparr>, current_high_tide_alert]"
proof -
  have h: "clock frozen_env (Suc (clock_reads (service_with [] [stale_alert, current_high_tide_alert])))
         = clock frozen_env (clock_reads (service_with [] [stale_alert, current_high_tide_alert]))"
    by (simp add: frozen_env_def)
  have a: "active_alerts (cleanup_expired_alerts frozen_env (service_with [] [stale_alert, current_high_tide_alert]))
      = [stale_alert\<lparr>is_active := False\<rparr>, current_high_tide_alert]"
    using sweep_sample by (simp add: cleanup_expired_alerts_def now_def frozen_env_def service_with_def)
  show ?thesis using cleanup_twice_same_time[OF h] a by simp
qed

text \<open>
  C10. When the status reports a current height above 3.0 m, a call of
  \<open>check_and_generate_alerts\<close> creates an active alert for that height, STORM_SURGE and
  CRITICAL above 4.0 m, HIGH_TIDE and HIGH otherwise, whatever alerts the collection holds,
  and the collection after the call is the swept old collection followed by the sweep of
  the new alerts. The new alert is in the collection after the call when its timestamp is
  less than 24 hours before the reading of the final sweep, and it stands there unchanged,
  right after the old alerts, when it has not expired at that reading; every old alert
  that is active and has not expired at that reading is still in the collection. Every
  other alert of the call is of type COASTAL_RISK, and none is created when an active
  COASTAL_RISK alert exists or when the level is neither HIGH nor CRITICAL.
\<close>

theorem tide_height_alerts_not_deduplicated:
  assumes "st_height_meters (fst (get_current_tide_status e s)) = Some h" and "h > 3.0"
  shows "\<exists>a more k.
           fst (check_and_generate_alerts e s)
             = map (expire_alert (clock e (clock_reads (snd (check_and_generate_alerts e s)) - 1))) (a # more)
         \<and> active_alerts (snd (check_and_generate_alerts e s))
             = sweep (clock e (clock_reads (snd (check_and_generate_alerts e s)) - 1)) (active_alerts s)
               @ sweep (clock e (clock_reads (snd (check_and_generate_alerts e s)) - 1)) (a # more)
         \<and> alert_type a = (if h > 4.0 then ''STORM_SURGE'' else ''HIGH_TIDE'')
         \<and> severity a = (if h > 4.0 then ''CRITICAL'' else ''HIGH'')
         \<and> tide_height a = h \<and> is_active a
         \<and> alert_timestamp a = clock e k
         \<and> expires_at a = clock e (Suc k) + expires_in (severity a)
         \<and> (alert_timestamp a > clock e (clock_reads (snd (check_and_generate_alerts e s)) - 1) - timedelta_hours 24
              \<longrightarrow> expire_alert (clock e (clock_reads (snd (check_and_generate_alerts e s)) - 1)) a
                    \<in> set (active_alerts (snd (check_and_generate_alerts e s))))
         \<and> (\<not> expires_at a < clock e (clock_reads (snd (check_and_generate_alerts e s)) - 1)
              \<longrightarrow> active_alerts (snd (check_and_generate_alerts e s))
                    = sweep (clock e (clock_reads (snd (check_and_generate_alerts e s)) - 1)) (active_alerts s)
                      @ a # sweep (clock e (clock_reads (snd (check_and_generate_alerts e s)) - 1)) more)
         \<and> (\<forall>b \<in> set (active_alerts s).
               is_active b \<and> \<not> expires_at b < clock e (clock_reads (snd (check_and_generate_alerts e s)) - 1)
               \<longrightarrow> b \<in> set (active_alerts (snd (check_and_generate_alerts e s))))
         \<and> (\<forall>b \<in> set more. alert_type b = ''COASTAL_RISK'')
         \<and> (active_coastal_risk (active_alerts s) \<noteq> [] \<longrightarrow> more = [])
         \<and> (level (st_risk_assessment (fst (get_current_tide_status e s))) \<noteq> ''HIGH''
            \<and> level (st_risk_assessment (fst (get_current_tide_status e s))) \<noteq> ''CRITICAL''
              \<longrightarrow> more = [])"
  using assms by (rule check_keeps_height_alert)

theorem tide_height_alerts_not_deduplicated_witness:
  "alert_type current_high_tide_alert = ''HIGH_TIDE'' \<and> is_active current_high_tide_alert
   \<and> st_height_meters (fst (get_current_tide_status frozen_env
        (service_with [prediction_at t0 3.2 calm_weather] [current_high_tide_alert]))) = Some 3.2
   \<and> (\<exists>a. active_alerts (snd (check_and_generate_alerts frozen_env
              (service_with [prediction_at t0 3.2 calm_weather] [current_high_tide_alert])))
             = [current_high_tide_alert, a]
          \<and> alert_type a = ''HIGH_TIDE'' \<and> severity a = ''HIGH'' \<and> tide_height a = 3.2 \<and> is_active a)
   \<and> active_alerts (snd (check_and_generate_alerts frozen_env
          (service_with [prediction_at t0 3.2 calm_weather] [current_high_tide_alert])))
       = [current_high_tide_alert, new_high_tide_alert]
   \<and> filter (\<lambda>b. alert_type b = ''HIGH_TIDE'' \<and> is_active b)
        (active_alerts (snd (check_and_generate_alerts frozen_env
          (service_with [prediction_at t0 3.2 calm_weather] [current_high_tide_alert]))))
       = [current_high_tide_alert, new_high_tide_alert]"
proof -
  let ?s = "service_with [prediction_at t0 3.2 calm_weather] [current_high_tide_alert]"
  let ?c = "active_alerts (snd (check_and_generate_alerts frozen_env ?s))"
  have c: "alert_type current_high_tide_alert = ''HIGH_TIDE'' \<and> is_active current_high_tide_alert"
    by (simp add: current_high_tide_alert_def sample_alert_def)
  have s: "active_alerts ?s = [current_high_tide_alert]" by (simp add: service_with_def)
  have lv: "level (st_risk_assessment (fst (get_current_tide_status frozen_env ?s))) \<noteq> ''HIGH''
          \<and> level (st_risk_assessment (fst (get_current_tide_status frozen_env ?s))) \<noteq> ''CRITICAL''"
    unfolding high_tide_status_level by simp
  have i: "(if (3.2::real) > 4.0 then x else y) = y" for x y :: string by simp
  note T = tide_height_alerts_not_deduplicated[OF high_status_height[of "[current_high_tide_alert]"],
             unfolded frozen_clock i s]
  have "(3.0::real) < 3.2" by simp
  from T[OF this]
  obtain a more where
        col: "\<not> expires_at a < t0 \<longrightarrow> ?c = sweep t0 [current_high_tide_alert] @ a # sweep t0 more"
    and a: "alert_type a = ''HIGH_TIDE''" "severity a = ''HIGH''" "tide_height a = 3.2" "is_active a"
       "expires_at a = t0 + expires_in (severity a)"
    and m: "level (st_risk_assessment (fst (get_current_tide_status frozen_env ?s))) \<noteq> ''HIGH''
          \<and> level (st_risk_assessment (fst (get_current_tide_status frozen_env ?s))) \<noteq> ''CRITICAL''
            \<longrightarrow> more = []"
    by blast
  have more: "more = []" using m lv by blast
  have "expires_at a = t0 + timedelta_hours 4" using a(2,5) by (simp add: expires_in_def)
  then have "\<not> expires_at a < t0" by (simp add: timedelta_hours_def)
  with col have "?c = sweep t0 [current_high_tide_alert] @ a # sweep t0 more" by blast
  then have "?c = [current_high_tide_alert, a]"
    unfolding more sweep_current by (simp add: sweep_def)
  then have T: "\<exists>a. ?c = [current_high_tide_alert, a]
          \<and> alert_type a = ''HIGH_TIDE'' \<and> severity a = ''HIGH'' \<and> tide_height a = 3.2 \<and> is_active a"
    using a(1-4) by blast
  have E: "?c = [current_high_tide_alert, new_high_tide_alert]" by (rule sample_check_collection)
  have F: "filter (\<lambda>b. alert_type b = ''HIGH_TIDE'' \<and> is_active b) ?c
             = [current_high_tide_alert, new_high_tide_alert]"
    unfolding E using c is_active_new by simp
  from c high_status_height[of "[current_high_tide_alert]"] T E F show ?thesis by (intro conjI) blast+
qed

end
